theory Spec2Isabelle
  imports Complex_Main
begin

section \<open>Data model\<close>

text \<open>
  JavaScript numbers are modelled as \<^typ>\<open>real\<close>: rounding is not modelled. The one place
  where the program leaves the finite numbers (a division by a zero distance in the ball-ball
  resolver) is made explicit, see the section on coincident centres.
\<close>

text \<open>
  Modelled from the spec: the enum \<open>Color\<close> of \<open>common/color.ts\<close> is not among the sources;
  the spec gives it as \<open>enum{white, black, red, yellow}\<close>. A nullable colour
  (\<open>Color | null\<close>, or a field never assigned) is a \<^typ>\<open>'a option\<close>, and the truthiness
  tests \<open>!player.color\<close>, \<open>!collidedBallColor\<close> are tests for \<open>None\<close>.
\<close>

datatype Color = white | black | red | yellow

subsection \<open>physics/vector2.ts\<close>

record Vector2 =
  v2x :: real
  v2y :: real

definition vec :: "real \<Rightarrow> real \<Rightarrow> Vector2" where
  "vec a b = \<lparr>v2x = a, v2y = b\<rparr>"

definition zero :: Vector2 where
  "zero = vec 0 0"

definition length_v :: "Vector2 \<Rightarrow> real" where
  "length_v v = sqrt ((v2x v)\<^sup>2 + (v2y v)\<^sup>2)"

definition addX :: "Vector2 \<Rightarrow> real \<Rightarrow> Vector2" where
  "addX v a = vec (v2x v + a) (v2y v)"

definition addY :: "Vector2 \<Rightarrow> real \<Rightarrow> Vector2" where
  "addY v a = vec (v2x v) (v2y v + a)"

definition add :: "Vector2 \<Rightarrow> Vector2 \<Rightarrow> Vector2" where
  "add v w = vec (v2x v + v2x w) (v2y v + v2y w)"

definition subtract :: "Vector2 \<Rightarrow> Vector2 \<Rightarrow> Vector2" where
  "subtract v w = vec (v2x v - v2x w) (v2y v - v2y w)"

definition mult :: "Vector2 \<Rightarrow> real \<Rightarrow> Vector2" where
  "mult v k = vec (v2x v * k) (v2y v * k)"

definition dot :: "Vector2 \<Rightarrow> Vector2 \<Rightarrow> real" where
  "dot v w = v2x v * v2x w + v2y v * v2y w"

definition distFrom :: "Vector2 \<Rightarrow> Vector2 \<Rightarrow> real" where
  "distFrom v w = length_v (subtract v w)"

subsection \<open>game.config.ts\<close>

definition gameSize :: Vector2 where
  "gameSize = vec 1500 825"

definition friction :: real where
  "friction = 18 / 1000"

definition collisionLoss :: real where
  "collisionLoss = 18 / 1000"

definition cushionWidth :: real where
  "cushionWidth = 57"

definition pocketRadius :: real where
  "pocketRadius = 48"

definition pocketsPositions :: "Vector2 list" where
  "pocketsPositions =
     [vec 62 62, vec 750 32, vec 1435 62, vec 62 762, vec 750 794, vec 1435 762]"

definition diameter :: real where
  "diameter = 38"

definition minVelocityLength :: real where
  "minVelocityLength = 5 / 100"

definition cueBallPosition :: Vector2 where
  "cueBallPosition = vec 413 413"

definition eightBallPosition :: Vector2 where
  "eightBallPosition = vec 1090 413"

definition redBallsPositions :: "Vector2 list" where
  "redBallsPositions =
     [vec 1056 433, vec 1090 374, vec 1126 393, vec 1126 472,
      vec 1162 335, vec 1162 374, vec 1162 452]"

definition yellowBallsPositions :: "Vector2 list" where
  "yellowBallsPositions =
     [vec 1022 413, vec 1056 393, vec 1090 452, vec 1126 354,
      vec 1126 433, vec 1162 413, vec 1162 491]"

subsection \<open>game-objects/ball.ts\<close>

record Ball =
  position :: Vector2
  velocity :: Vector2
  color :: Color
  moving :: bool
  visible :: bool

text \<open>The constructor: zero velocity, not moving, visible.\<close>

definition new_Ball :: "Vector2 \<Rightarrow> Color \<Rightarrow> Ball" where
  "new_Ball pos c =
     \<lparr>position = pos, velocity = zero, color = c, moving = False, visible = True\<rparr>"

definition nextPosition :: "Ball \<Rightarrow> Vector2" where
  "nextPosition b = add (position b) (mult (velocity b) (1 - friction))"

text \<open>The setter of \<open>velocity\<close> recomputes \<open>moving\<close>.\<close>

definition set_velocity :: "Ball \<Rightarrow> Vector2 \<Rightarrow> Ball" where
  "set_velocity b v = b\<lparr>moving := (length_v v > 0), velocity := v\<rparr>"

definition shoot :: "Ball \<Rightarrow> real \<Rightarrow> real \<Rightarrow> Ball" where
  "shoot b pw angle = b\<lparr>velocity := vec (pw * cos angle) (pw * sin angle), moving := True\<rparr>"

definition show_ball :: "Ball \<Rightarrow> Vector2 \<Rightarrow> Ball" where
  "show_ball b pos = b\<lparr>position := pos, velocity := zero, visible := True\<rparr>"

definition hide :: "Ball \<Rightarrow> Ball" where
  "hide b = b\<lparr>velocity := zero, moving := False, visible := False\<rparr>"

text \<open>
  \<open>Ball.update\<close>: \<open>multBy\<close> scales the velocity in place, \<open>addTo\<close> then advances the
  position by the scaled velocity; below the threshold the velocity setter stores zero.
\<close>

definition ball_update :: "Ball \<Rightarrow> Ball" where
  "ball_update b =
     (if moving b then
        let b1 = b\<lparr>velocity := mult (velocity b) (1 - friction)\<rparr>;
            b2 = b1\<lparr>position := add (position b1) (velocity b1)\<rparr>
        in if length_v (velocity b2) < minVelocityLength
           then (set_velocity b2 zero)\<lparr>moving := False\<rparr>
           else b2
      else b)"

subsection \<open>game-objects/game-world.ts: cushions\<close>

definition isBallPosOutsideTopBorder :: "Vector2 \<Rightarrow> bool" where
  "isBallPosOutsideTopBorder pos = (v2y pos - diameter / 2 \<le> cushionWidth)"

definition isBallPosOutsideLeftBorder :: "Vector2 \<Rightarrow> bool" where
  "isBallPosOutsideLeftBorder pos = (v2x pos - diameter / 2 \<le> cushionWidth)"

definition isBallPosOutsideRightBorder :: "Vector2 \<Rightarrow> bool" where
  "isBallPosOutsideRightBorder pos = (v2x pos + diameter / 2 \<ge> v2x gameSize - cushionWidth)"

definition isBallPosOutsideBottomBorder :: "Vector2 \<Rightarrow> bool" where
  "isBallPosOutsideBottomBorder pos = (v2y pos + diameter / 2 \<ge> v2y gameSize - cushionWidth)"

definition handleCollisionWithTopCushion :: "Ball \<Rightarrow> Ball" where
  "handleCollisionWithTopCushion b =
     (let b1 = b\<lparr>position :=
                  addY (position b) (cushionWidth - v2y (position b) + diameter / 2)\<rparr>
      in set_velocity b1 (vec (v2x (velocity b1)) (- v2y (velocity b1))))"

definition handleCollisionWithLeftCushion :: "Ball \<Rightarrow> Ball" where
  "handleCollisionWithLeftCushion b =
     (let b1 = b\<lparr>position :=
                  addX (position b) (cushionWidth - v2x (position b) + diameter / 2)\<rparr>
      in set_velocity b1 (vec (- v2x (velocity b1)) (v2y (velocity b1))))"

definition handleCollisionWithRightCushion :: "Ball \<Rightarrow> Ball" where
  "handleCollisionWithRightCushion b =
     (let b1 = b\<lparr>position :=
                  addX (position b)
                    (v2x gameSize - cushionWidth - v2x (position b) - diameter / 2)\<rparr>
      in set_velocity b1 (vec (- v2x (velocity b1)) (v2y (velocity b1))))"

definition handleCollisionWithBottomCushion :: "Ball \<Rightarrow> Ball" where
  "handleCollisionWithBottomCushion b =
     (let b1 = b\<lparr>position :=
                  addY (position b)
                    (v2y gameSize - cushionWidth - v2y (position b) - diameter / 2)\<rparr>
      in set_velocity b1 (vec (v2x (velocity b1)) (- v2y (velocity b1))))"

text \<open>
  The four tests run one after the other, each on the \<open>nextPosition\<close> of the ball as the
  earlier handlers left it; \<open>collided\<close> is the flag of the source.
\<close>

definition resolveBallCollisionWithCushion :: "Ball \<Rightarrow> Ball" where
  "resolveBallCollisionWithCushion b =
     (let (b1, c1) = (if isBallPosOutsideTopBorder (nextPosition b)
                      then (handleCollisionWithTopCushion b, True) else (b, False));
          (b2, c2) = (if isBallPosOutsideLeftBorder (nextPosition b1)
                      then (handleCollisionWithLeftCushion b1, True) else (b1, c1));
          (b3, c3) = (if isBallPosOutsideRightBorder (nextPosition b2)
                      then (handleCollisionWithRightCushion b2, True) else (b2, c2));
          (b4, c4) = (if isBallPosOutsideBottomBorder (nextPosition b3)
                      then (handleCollisionWithBottomCushion b3, True) else (b3, c3))
      in if c4 then set_velocity b4 (mult (velocity b4) (1 - collisionLoss)) else b4)"

text \<open>
  The four border tests of \<open>isInsideTableBoundaries\<close> (the pocket test of that function is
  kept apart, in \<open>isInsideTableBoundaries\<close> below).
\<close>

definition insideBorders :: "Vector2 \<Rightarrow> bool" where
  "insideBorders pos =
     (\<not> isBallPosOutsideTopBorder pos \<and> \<not> isBallPosOutsideLeftBorder pos \<and>
      \<not> isBallPosOutsideRightBorder pos \<and> \<not> isBallPosOutsideBottomBorder pos)"

subsection \<open>game-objects/player.ts\<close>

record Player =
  player_color :: "Color option"
  matchScore :: int
  overallScore :: int

section \<open>game-objects/referee.ts\<close>

definition isValidFirstTouch :: "Player \<Rightarrow> Color option \<Rightarrow> bool \<Rightarrow> bool" where
  "isValidFirstTouch player collidedBallColor somePocketed =
     (case collidedBallColor of
        None \<Rightarrow> False
      | Some c \<Rightarrow>
          (case player_color player of
             None \<Rightarrow> c \<noteq> black
           | Some pc \<Rightarrow>
               pc = c \<or>
               (matchScore player = 1 \<and> somePocketed \<and> c \<noteq> black) \<or>
               (matchScore player = 7 \<and> c = black) \<or>
               (matchScore player = 8 \<and> c = black)))"

text \<open>
  The first-touch rule in the words of the specification, for a player with the colour
  \<open>assigned\<close> (if any) who has \<open>remaining\<close> object balls, that is balls of that colour, left
  on the table.
\<close>

definition claimed_firstTouch :: "Color option \<Rightarrow> nat \<Rightarrow> Color option \<Rightarrow> bool \<Rightarrow> bool" where
  "claimed_firstTouch assigned remaining touched somePocketed =
     (if touched = None then False
      else if assigned = None then touched \<noteq> Some black
      else touched = assigned \<or>
           (remaining = 1 \<and> somePocketed) \<or>
           (remaining \<in> {7, 8} \<and> touched = Some black))"

text \<open>
  The rule on what the referee reads, the player's match score, with the referee's guard on
  the second alternative.
\<close>

definition amended_firstTouch :: "Player \<Rightarrow> Color option \<Rightarrow> bool \<Rightarrow> bool" where
  "amended_firstTouch player touched somePocketed =
     (if touched = None then False
      else if player_color player = None then touched \<noteq> Some black
      else touched = player_color player \<or>
           (matchScore player = 1 \<and> somePocketed \<and> touched \<noteq> Some black) \<or>
           (matchScore player \<in> {7, 8} \<and> touched = Some black))"

section \<open>game-objects/game-world.ts: ball-ball collisions\<close>

text \<open>
  \<open>resolveBallsCollision\<close> mutates both balls and returns whether they collided; the model
  returns the flag with the two balls. The source divides by \<open>dist\<close> without a test. For
  \<open>dist = 0\<close> the quotient is not a finite number, which \<^typ>\<open>real\<close> cannot express (in HOL,
  \<open>x / 0 = 0\<close>): that branch is \<open>None\<close> here, and the section on IEEE special values below
  computes what the source stores in the balls.
\<close>

definition resolveBallsCollision :: "Ball \<Rightarrow> Ball \<Rightarrow> (bool \<times> Ball \<times> Ball) option" where
  "resolveBallsCollision first second =
     (if \<not> visible first \<or> \<not> visible second then Some (False, first, second)
      else
        let n = subtract (position first) (position second);
            dist = length_v n
        in if dist > diameter then Some (False, first, second)
           else if dist = 0 then None
           else
             let mtd = mult n ((diameter - dist) / dist);
                 first1 = first\<lparr>position := add (position first) (mult mtd (1 / 2))\<rparr>;
                 second1 = second\<lparr>position := subtract (position second) (mult mtd (1 / 2))\<rparr>;
                 un = mult n (1 / length_v n);
                 ut = vec (- v2y un) (v2x un);
                 v1n = dot un (velocity first1);
                 v1t = dot ut (velocity first1);
                 v2n = dot un (velocity second1);
                 v2t = dot ut (velocity second1);
                 v1nTag = mult un v2n;
                 v1tTag = mult ut v1t;
                 v2nTag = mult un v1n;
                 v2tTag = mult ut v2t;
                 first2 = set_velocity first1 (add v1nTag v1tTag);
                 second2 = set_velocity second1 (add v2nTag v2tTag);
                 first3 = set_velocity first2 (mult (velocity first2) (1 - collisionLoss));
                 second3 = set_velocity second2 (mult (velocity second2) (1 - collisionLoss))
             in Some (True, first3, second3))"

subsection \<open>The resolver on IEEE special values\<close>

text \<open>
  A JavaScript number is a finite value, an infinity or NaN. Rounding, overflow of finite
  operands and the sign of zero are not modelled; every operation below follows IEEE 754 on
  the special values.
\<close>

datatype jsnum = Fin real | PInf | NInf | NaN

fun jneg :: "jsnum \<Rightarrow> jsnum" where
  "jneg (Fin a) = Fin (- a)"
| "jneg PInf = NInf"
| "jneg NInf = PInf"
| "jneg NaN = NaN"

fun jadd :: "jsnum \<Rightarrow> jsnum \<Rightarrow> jsnum" where
  "jadd (Fin a) (Fin b) = Fin (a + b)"
| "jadd NaN _ = NaN"
| "jadd _ NaN = NaN"
| "jadd PInf NInf = NaN"
| "jadd NInf PInf = NaN"
| "jadd PInf _ = PInf"
| "jadd NInf _ = NInf"
| "jadd _ PInf = PInf"
| "jadd _ NInf = NInf"

definition jsub :: "jsnum \<Rightarrow> jsnum \<Rightarrow> jsnum" where
  "jsub a b = jadd a (jneg b)"

text \<open>The sign of an infinite product or quotient.\<close>

definition jinf :: "bool \<Rightarrow> jsnum" where
  "jinf positive = (if positive then PInf else NInf)"

fun jmul :: "jsnum \<Rightarrow> jsnum \<Rightarrow> jsnum" where
  "jmul (Fin a) (Fin b) = Fin (a * b)"
| "jmul NaN _ = NaN"
| "jmul _ NaN = NaN"
| "jmul (Fin a) PInf = (if a = 0 then NaN else jinf (0 < a))"
| "jmul (Fin a) NInf = (if a = 0 then NaN else jinf (a < 0))"
| "jmul PInf (Fin b) = (if b = 0 then NaN else jinf (0 < b))"
| "jmul NInf (Fin b) = (if b = 0 then NaN else jinf (b < 0))"
| "jmul PInf PInf = PInf"
| "jmul NInf NInf = PInf"
| "jmul PInf NInf = NInf"
| "jmul NInf PInf = NInf"

fun jdiv :: "jsnum \<Rightarrow> jsnum \<Rightarrow> jsnum" where
  "jdiv (Fin a) (Fin b) =
     (if b = 0 then (if a = 0 then NaN else jinf (0 < a)) else Fin (a / b))"
| "jdiv NaN _ = NaN"
| "jdiv _ NaN = NaN"
| "jdiv (Fin a) PInf = Fin 0"
| "jdiv (Fin a) NInf = Fin 0"
| "jdiv PInf (Fin b) = jinf (0 \<le> b)"
| "jdiv NInf (Fin b) = jinf (b < 0)"
| "jdiv PInf PInf = NaN"
| "jdiv NInf NInf = NaN"
| "jdiv PInf NInf = NaN"
| "jdiv NInf PInf = NaN"

fun jsqrt :: "jsnum \<Rightarrow> jsnum" where
  "jsqrt (Fin a) = (if a < 0 then NaN else Fin (sqrt a))"
| "jsqrt PInf = PInf"
| "jsqrt NInf = NaN"
| "jsqrt NaN = NaN"

text \<open>\<open>a > b\<close>: false as soon as one side is NaN.\<close>

fun jgt :: "jsnum \<Rightarrow> jsnum \<Rightarrow> bool" where
  "jgt (Fin a) (Fin b) = (a > b)"
| "jgt NaN _ = False"
| "jgt _ NaN = False"
| "jgt PInf PInf = False"
| "jgt PInf _ = True"
| "jgt _ PInf = False"
| "jgt NInf _ = False"
| "jgt _ NInf = True"

fun isFinite :: "jsnum \<Rightarrow> bool" where
  "isFinite (Fin a) = True"
| "isFinite _ = False"

record JVector2 =
  jx :: jsnum
  jy :: jsnum

definition jvec :: "jsnum \<Rightarrow> jsnum \<Rightarrow> JVector2" where
  "jvec a b = \<lparr>jx = a, jy = b\<rparr>"

definition jlength :: "JVector2 \<Rightarrow> jsnum" where
  "jlength v = jsqrt (jadd (jmul (jx v) (jx v)) (jmul (jy v) (jy v)))"

definition jvadd :: "JVector2 \<Rightarrow> JVector2 \<Rightarrow> JVector2" where
  "jvadd v w = jvec (jadd (jx v) (jx w)) (jadd (jy v) (jy w))"

definition jvsubtract :: "JVector2 \<Rightarrow> JVector2 \<Rightarrow> JVector2" where
  "jvsubtract v w = jvec (jsub (jx v) (jx w)) (jsub (jy v) (jy w))"

definition jvmult :: "JVector2 \<Rightarrow> jsnum \<Rightarrow> JVector2" where
  "jvmult v k = jvec (jmul (jx v) k) (jmul (jy v) k)"

definition jvdot :: "JVector2 \<Rightarrow> JVector2 \<Rightarrow> jsnum" where
  "jvdot v w = jadd (jmul (jx v) (jx w)) (jmul (jy v) (jy w))"

record JBall =
  jposition :: JVector2
  jvelocity :: JVector2
  jmoving :: bool
  jvisible :: bool

definition jset_velocity :: "JBall \<Rightarrow> JVector2 \<Rightarrow> JBall" where
  "jset_velocity b v = b\<lparr>jmoving := jgt (jlength v) (Fin 0), jvelocity := v\<rparr>"

text \<open>The same statements of \<open>resolveBallsCollision\<close>, in the same order, on these numbers.\<close>

definition resolveBallsCollision_ieee :: "JBall \<Rightarrow> JBall \<Rightarrow> bool \<times> JBall \<times> JBall" where
  "resolveBallsCollision_ieee first second =
     (if \<not> jvisible first \<or> \<not> jvisible second then (False, first, second)
      else
        let n = jvsubtract (jposition first) (jposition second);
            dist = jlength n
        in if jgt dist (Fin diameter) then (False, first, second)
           else
             let mtd = jvmult n (jdiv (jsub (Fin diameter) dist) dist);
                 first1 = first\<lparr>jposition := jvadd (jposition first) (jvmult mtd (Fin (1 / 2)))\<rparr>;
                 second1 = second\<lparr>jposition :=
                             jvsubtract (jposition second) (jvmult mtd (Fin (1 / 2)))\<rparr>;
                 un = jvmult n (jdiv (Fin 1) (jlength n));
                 ut = jvec (jneg (jy un)) (jx un);
                 v1n = jvdot un (jvelocity first1);
                 v1t = jvdot ut (jvelocity first1);
                 v2n = jvdot un (jvelocity second1);
                 v2t = jvdot ut (jvelocity second1);
                 v1nTag = jvmult un v2n;
                 v1tTag = jvmult ut v1t;
                 v2nTag = jvmult un v1n;
                 v2tTag = jvmult ut v2t;
                 first2 = jset_velocity first1 (jvadd v1nTag v1tTag);
                 second2 = jset_velocity second1 (jvadd v2nTag v2tTag);
                 first3 = jset_velocity first2
                            (jvmult (jvelocity first2) (Fin (1 - collisionLoss)));
                 second3 = jset_velocity second2
                             (jvmult (jvelocity second2) (Fin (1 - collisionLoss)))
             in (True, first3, second3))"

text \<open>A ball with finite coordinates, as a ball of the IEEE model.\<close>

definition jfin :: "Vector2 \<Rightarrow> JVector2" where
  "jfin v = jvec (Fin (v2x v)) (Fin (v2y v))"

definition jball :: "Ball \<Rightarrow> JBall" where
  "jball b = \<lparr>jposition = jfin (position b), jvelocity = jfin (velocity b),
              jmoving = moving b, jvisible = visible b\<rparr>"

section \<open>game-objects/state.ts, stick.ts\<close>

text \<open>
  \<open>Ball\<close> objects are shared: \<open>_cueBall\<close> and \<open>_8Ball\<close> point into \<open>_balls\<close>, and
  \<open>pocketedBalls\<close> holds balls by reference (\<open>includes\<close>, \<open>indexOf\<close> compare identities). A
  ball is therefore an address into a store of \<open>Ball\<close> objects.
\<close>

type_synonym ref = nat

record State =
  firstCollidedBallColor :: "Color option"
  pocketedBalls :: "ref list"
  ballInHand :: bool
  isValid :: bool

definition new_State :: State where
  "new_State = \<lparr>firstCollidedBallColor = None, pocketedBalls = [], ballInHand = False,
                 isValid = False\<rparr>"

definition stickOrigin :: Vector2 where
  "stickOrigin = vec 970 11"

definition shotOrigin :: Vector2 where
  "shotOrigin = vec 950 11"

definition powerToAddPerFrame :: real where
  "powerToAddPerFrame = 1"

definition movementPerFrame :: real where
  "movementPerFrame = 3"

definition maxPower :: real where
  "maxPower = 50"

record Stick =
  stick_position :: Vector2
  rotation :: real
  origin :: Vector2
  stick_power :: real
  movable :: bool
  stick_visible :: bool

definition new_Stick :: "Vector2 \<Rightarrow> Stick" where
  "new_Stick pos = \<lparr>stick_position = pos, rotation = 0, origin = stickOrigin, stick_power = 0,
                     movable = True, stick_visible = True\<rparr>"

text \<open>
  What the mouse, the keyboard and the two globals read by the world (\<open>GameConfig.ai.on\<close>,
  \<open>AI.finishedSession\<close>) hold during one call. The three configured mouse buttons are all
  button 0. Sounds and drawing are not modelled.
\<close>

record Env =
  mouse_position :: Vector2
  mouse_pressed :: bool
  key_increase :: bool
  key_decrease :: bool
  ai_on :: bool
  ai_finishedSession :: bool

text \<open>\<open>Math.atan2(opposite, adjacent)\<close>, as the argument of the complex number.\<close>

definition atan2 :: "real \<Rightarrow> real \<Rightarrow> real" where
  "atan2 opposite adjacent = Arg (Complex adjacent opposite)"

definition increasePower :: "Stick \<Rightarrow> Stick" where
  "increasePower s = s\<lparr>stick_power := stick_power s + powerToAddPerFrame,
                        origin := addX (origin s) movementPerFrame\<rparr>"

definition decreasePower :: "Stick \<Rightarrow> Stick" where
  "decreasePower s = s\<lparr>stick_power := stick_power s - powerToAddPerFrame,
                        origin := addX (origin s) (- movementPerFrame)\<rparr>"

definition updatePower :: "Env \<Rightarrow> Stick \<Rightarrow> Stick" where
  "updatePower env s =
     (if key_increase env \<and> stick_power s < maxPower then increasePower s
      else if key_decrease env \<and> stick_power s \<ge> 0 then decreasePower s
      else s)"

definition updateRotation :: "Env \<Rightarrow> Stick \<Rightarrow> Stick" where
  "updateRotation env s =
     (let opposite = v2y (mouse_position env) - v2y (stick_position s);
          adjacent = v2x (mouse_position env) - v2x (stick_position s)
      in s\<lparr>rotation := atan2 opposite adjacent\<rparr>)"

definition stick_hide :: "Stick \<Rightarrow> Stick" where
  "stick_hide s = s\<lparr>stick_power := 0, stick_visible := False, movable := False\<rparr>"

definition stick_show :: "Stick \<Rightarrow> Vector2 \<Rightarrow> Stick" where
  "stick_show s pos = s\<lparr>stick_position := pos, origin := stickOrigin, movable := True,
                         stick_visible := True\<rparr>"

definition stick_shoot :: "Stick \<Rightarrow> Stick" where
  "stick_shoot s = s\<lparr>origin := shotOrigin\<rparr>"

definition updateStick :: "Env \<Rightarrow> Stick \<Rightarrow> Stick" where
  "updateStick env s = (if movable s then updatePower env (updateRotation env s) else s)"

section \<open>game-objects/referee.ts: pocketed balls, game over\<close>

text \<open>\<open>pocketedBalls[0]\<close> is read only after the test for the empty array.\<close>

definition isValidPocketedBalls :: "Player \<Rightarrow> Ball list \<Rightarrow> bool" where
  "isValidPocketedBalls player pocketed =
     (case pocketed of
        [] \<Rightarrow> True
      | b0 # _ \<Rightarrow>
          (case player_color player of
             Some pc \<Rightarrow>
               if matchScore player = 8 then length pocketed = 1 \<and> color b0 = black
               else list_all (\<lambda>ball. color ball = pc) pocketed
           | None \<Rightarrow>
               color b0 \<noteq> white \<and> color b0 \<noteq> black \<and>
               list_all (\<lambda>ball. color ball = color b0) pocketed))"

definition referee_isGameOver :: "Player \<Rightarrow> Ball \<Rightarrow> Ball \<Rightarrow> bool" where
  "referee_isGameOver currentPlayer cue eight =
     (\<not> visible eight \<or>
      (\<not> visible cue \<and> matchScore currentPlayer = 7) \<or>
      (\<not> visible cue \<and> matchScore currentPlayer = 8))"

section \<open>game-objects/game-world.ts\<close>

definition ai_playerIndex :: nat where
  "ai_playerIndex = 1"

text \<open>
  \<open>_players\<close> always holds two players and \<open>_currentPlayerIndex\<close> is 0 or 1 (it is only
  ever reset to 0 or advanced modulo the length); the theorems that read a player assume so.
\<close>

record GameWorld =
  stick :: Stick
  cueBall :: ref
  eightBall :: ref
  balls :: "ref list"
  heap :: "ref \<Rightarrow> Ball"
  players :: "Player list"
  currentPlayerIndex :: nat
  turnState :: State

definition isValidTurn :: "Player \<Rightarrow> (ref \<Rightarrow> Ball) \<Rightarrow> State \<Rightarrow> bool" where
  "isValidTurn player h st =
     (isValidFirstTouch player (firstCollidedBallColor st) (length (pocketedBalls st) > 0) \<and>
      isValidPocketedBalls player (map h (pocketedBalls st)))"

definition currentPlayer :: "GameWorld \<Rightarrow> Player" where
  "currentPlayer w = players w ! currentPlayerIndex w"

definition nextPlayerIndex :: "GameWorld \<Rightarrow> nat" where
  "nextPlayerIndex w = (currentPlayerIndex w + 1) mod length (players w)"

definition nextPlayer :: "GameWorld \<Rightarrow> Player" where
  "nextPlayer w = players w ! nextPlayerIndex w"

definition isBallInHand :: "GameWorld \<Rightarrow> bool" where
  "isBallInHand w = ballInHand (turnState w)"

definition isTurnValid :: "GameWorld \<Rightarrow> bool" where
  "isTurnValid w = isValid (turnState w)"

definition isGameOver :: "GameWorld \<Rightarrow> bool" where
  "isGameOver w = referee_isGameOver (currentPlayer w) (heap w (cueBall w)) (heap w (eightBall w))"

definition isBallsMoving :: "GameWorld \<Rightarrow> bool" where
  "isBallsMoving w = list_ex (\<lambda>r. moving (heap w r)) (balls w)"

definition numOfPocketedBallsOnTurn :: "GameWorld \<Rightarrow> nat" where
  "numOfPocketedBallsOnTurn w = length (pocketedBalls (turnState w))"

definition getBallsByColor :: "GameWorld \<Rightarrow> Color \<Rightarrow> ref list" where
  "getBallsByColor w c = filter (\<lambda>r. color (heap w r) = c) (balls w)"

definition isInsidePocket :: "Vector2 \<Rightarrow> bool" where
  "isInsidePocket pos = list_ex (\<lambda>pocketPos. distFrom pos pocketPos \<le> pocketRadius) pocketsPositions"

definition resolveBallInPocket :: "Ball \<Rightarrow> Ball" where
  "resolveBallInPocket b = (if isInsidePocket (position b) then hide b else b)"

definition isValidPlayerColor :: "Color \<Rightarrow> bool" where
  "isValidPlayerColor c = (c = red \<or> c = yellow)"

definition isInsideTableBoundaries :: "Vector2 \<Rightarrow> bool" where
  "isInsideTableBoundaries pos =
     (\<not> isInsidePocket pos \<and> \<not> isBallPosOutsideTopBorder pos \<and>
      \<not> isBallPosOutsideLeftBorder pos \<and> \<not> isBallPosOutsideRightBorder pos \<and>
      \<not> isBallPosOutsideBottomBorder pos)"

definition isAITurn :: "Env \<Rightarrow> GameWorld \<Rightarrow> bool" where
  "isAITurn env w = (ai_finishedSession env \<and> ai_on env \<and> currentPlayerIndex w = ai_playerIndex)"

definition isValidPosToPlaceCueBall :: "GameWorld \<Rightarrow> Vector2 \<Rightarrow> bool" where
  "isValidPosToPlaceCueBall w pos =
     (list_all (\<lambda>r. color (heap w r) = white \<or> distFrom (position (heap w r)) pos > diameter)
        (balls w) \<and>
      isInsideTableBoundaries pos)"

definition placeBallInHand :: "GameWorld \<Rightarrow> Vector2 \<Rightarrow> GameWorld" where
  "placeBallInHand w pos =
     (let w1 = w\<lparr>heap := (heap w)(cueBall w := (heap w (cueBall w))\<lparr>position := pos\<rparr>)\<rparr>;
          w2 = w1\<lparr>turnState := (turnState w1)\<lparr>ballInHand := False\<rparr>\<rparr>
      in w2\<lparr>stick := stick_show (stick w2) (position (heap w2 (cueBall w2)))\<rparr>)"

definition handleBallInHand :: "Env \<Rightarrow> GameWorld \<Rightarrow> GameWorld" where
  "handleBallInHand env w =
     (if mouse_pressed env \<and> isValidPosToPlaceCueBall w (mouse_position env)
      then placeBallInHand w (mouse_position env)
      else
        let w1 = w\<lparr>stick := (stick w)\<lparr>movable := False\<rparr>\<rparr>;
            w2 = w1\<lparr>stick := (stick w1)\<lparr>stick_visible := False\<rparr>\<rparr>
        in w2\<lparr>heap := (heap w2)(cueBall w2 :=
                  (heap w2 (cueBall w2))\<lparr>position := mouse_position env\<rparr>)\<rparr>)"

text \<open>
  One iteration of the \<open>forEach\<close> of \<open>handleBallsInPockets\<close>, for the ball at address \<open>r\<close>.
\<close>

definition pocketStep :: "GameWorld \<Rightarrow> ref \<Rightarrow> GameWorld" where
  "pocketStep w r =
     (let w1 = w\<lparr>heap := (heap w)(r := resolveBallInPocket (heap w r))\<rparr>;
          ball = heap w1 r
      in if \<not> visible ball \<and> r \<notin> set (pocketedBalls (turnState w1)) then
           let w2 =
                 (if player_color (currentPlayer w1) = None \<and> isValidPlayerColor (color ball)
                  then
                    let ps1 = (players w1)[currentPlayerIndex w1 :=
                                (currentPlayer w1)\<lparr>player_color := Some (color ball)\<rparr>];
                        w1a = w1\<lparr>players := ps1\<rparr>;
                        ps2 = (players w1a)[nextPlayerIndex w1a :=
                                (nextPlayer w1a)\<lparr>player_color :=
                                   Some (if color ball = yellow then red else yellow)\<rparr>]
                    in w1a\<lparr>players := ps2\<rparr>
                  else w1)
           in w2\<lparr>turnState := (turnState w2)\<lparr>pocketedBalls :=
                                   pocketedBalls (turnState w2) @ [r]\<rparr>\<rparr>
         else w1)"

definition handleBallsInPockets :: "GameWorld \<Rightarrow> GameWorld" where
  "handleBallsInPockets w = foldl pocketStep w (balls w)"

text \<open>
  \<open>initMatch\<close> builds sixteen new balls; they take the addresses 0 to 15 (nothing of the
  world refers to a ball of the previous match afterwards). The balls at
  \<open>redBallsPositions\<close> get \<open>Color.yellow\<close> and those at \<open>yellowBallsPositions\<close> get
  \<open>Color.red\<close>, as in the source. \<open>ai\<close> stands for \<open>AI.startSession\<close>.
\<close>

definition initMatch :: "(GameWorld \<Rightarrow> GameWorld) \<Rightarrow> Env \<Rightarrow> GameWorld \<Rightarrow> GameWorld" where
  "initMatch ai env w =
     (let redBalls = map (\<lambda>pos. new_Ball pos yellow) redBallsPositions;
          yellowBalls = map (\<lambda>pos. new_Ball pos red) yellowBallsPositions;
          eight = new_Ball eightBallPosition black;
          cue = new_Ball cueBallPosition white;
          objs = redBalls @ yellowBalls @ [eight, cue];
          w1 = w\<lparr>eightBall := 14, cueBall := 15, stick := new_Stick cueBallPosition,
                 balls := [0 ..< 16],
                 heap := (\<lambda>r. if r < 16 then objs ! r else heap w r),
                 currentPlayerIndex := 0,
                 players := map (\<lambda>player. player\<lparr>matchScore := 0, player_color := None\<rparr>)
                              (players w),
                 turnState := new_State\<rparr>
      in if isAITurn env w1 then ai w1 else w1)"

definition handleGameOver :: "(GameWorld \<Rightarrow> GameWorld) \<Rightarrow> Env \<Rightarrow> GameWorld \<Rightarrow> GameWorld" where
  "handleGameOver ai env w =
     (let w1 =
            (if isValid (turnState w)
             then w\<lparr>players := (players w)[currentPlayerIndex w :=
                      (currentPlayer w)\<lparr>overallScore := overallScore (currentPlayer w) + 1\<rparr>]\<rparr>
             else w\<lparr>players := (players w)[nextPlayerIndex w :=
                      (nextPlayer w)\<lparr>overallScore := overallScore (nextPlayer w) + 1\<rparr>]\<rparr>)
      in initMatch ai env w1)"

definition nextTurn :: "(GameWorld \<Rightarrow> GameWorld) \<Rightarrow> Env \<Rightarrow> GameWorld \<Rightarrow> GameWorld" where
  "nextTurn ai env w =
     (let foul = \<not> isValid (turnState w)
      in if isGameOver w then handleGameOver ai env w
         else
           let w1 = (if \<not> visible (heap w (cueBall w))
                     then w\<lparr>heap := (heap w)(cueBall w :=
                                      show_ball (heap w (cueBall w)) cueBallPosition)\<rparr>
                     else w);
               w2 = (if foul \<or> length (pocketedBalls (turnState w1)) = 0
                     then w1\<lparr>currentPlayerIndex :=
                              (currentPlayerIndex w1 + 1) mod length (players w1)\<rparr>
                     else w1);
               w3 = w2\<lparr>stick := stick_show (stick w2) (position (heap w2 (cueBall w2)))\<rparr>;
               w4 = w3\<lparr>turnState := new_State\<lparr>ballInHand := foul\<rparr>\<rparr>
           in if isAITurn env w4 then ai w4 else w4)"

text \<open>
  \<open>Array.indexOf\<close> gives -1 for an absent element, and \<open>splice(i, 1)\<close> with a negative
  \<open>i\<close> counts from the end of the array.
\<close>

fun indexOf :: "'a list \<Rightarrow> 'a \<Rightarrow> int" where
  "indexOf [] a = - 1"
| "indexOf (b # bs) a =
     (if b = a then 0 else (let i = indexOf bs a in if i < 0 then - 1 else i + 1))"

definition splice1 :: "'a list \<Rightarrow> int \<Rightarrow> 'a list" where
  "splice1 xs i =
     (let start = (if i < 0 then max (int (length xs) + i) 0 else min i (int (length xs)))
      in take (nat start) xs @ drop (nat start + 1) xs)"

definition removePocketed :: "GameWorld \<Rightarrow> ref \<Rightarrow> GameWorld" where
  "removePocketed w r =
     (let ballIndex = indexOf (balls w) r
      in if color (heap w r) \<noteq> white then w\<lparr>balls := splice1 (balls w) ballIndex\<rparr> else w)"

definition concludeTurn :: "GameWorld \<Rightarrow> GameWorld" where
  "concludeTurn w =
     (let w1 = foldl removePocketed w (pocketedBalls (turnState w));
          w2 = (case player_color (currentPlayer w1) of
                  Some c \<Rightarrow>
                    w1\<lparr>players := (players w1)[currentPlayerIndex w1 :=
                          (currentPlayer w1)\<lparr>matchScore :=
                             8 - int (length (getBallsByColor w1 c))
                               - int (length (getBallsByColor w1 black))\<rparr>]\<rparr>
                | None \<Rightarrow> w1);
          w3 = (case player_color (nextPlayer w2) of
                  Some c \<Rightarrow>
                    w2\<lparr>players := (players w2)[nextPlayerIndex w2 :=
                          (nextPlayer w2)\<lparr>matchScore :=
                             8 - int (length (getBallsByColor w2 c))
                               - int (length (getBallsByColor w2 black))\<rparr>]\<rparr>
                | None \<Rightarrow> w2)
      in w3\<lparr>turnState := (turnState w3)\<lparr>isValid :=
                             isValidTurn (currentPlayer w3) (heap w3) (turnState w3)\<rparr>\<rparr>)"

text \<open>
  \<open>shootCueBall\<close>; the \<open>setTimeout\<close> that hides the stick later is the separate event
  \<open>hideStickAfterShot\<close>.
\<close>

definition shootCueBall :: "GameWorld \<Rightarrow> real \<Rightarrow> real \<Rightarrow> GameWorld" where
  "shootCueBall w pw rot =
     (if pw > 0 then
        let w1 = w\<lparr>stick := (stick w)\<lparr>rotation := rot\<rparr>\<rparr>;
            w2 = w1\<lparr>stick := stick_shoot (stick w1)\<rparr>;
            w3 = w2\<lparr>heap := (heap w2)(cueBall w2 := shoot (heap w2 (cueBall w2)) pw rot)\<rparr>
        in w3\<lparr>stick := (stick w3)\<lparr>movable := False\<rparr>\<rparr>
      else w)"

definition hideStickAfterShot :: "GameWorld \<Rightarrow> GameWorld" where
  "hideStickAfterShot w = w\<lparr>stick := stick_hide (stick w)\<rparr>"

definition handleInput :: "Env \<Rightarrow> GameWorld \<Rightarrow> GameWorld" where
  "handleInput env w =
     (if ai_finishedSession env \<and> mouse_pressed env
      then shootCueBall w (stick_power (stick w)) (rotation (stick w))
      else w)"

text \<open>
  \<open>handleCollisions\<close>: the inner loop over the balls after the \<open>i\<close>-th, and the outer loop.
  \<open>None\<close> is the \<open>None\<close> of \<open>resolveBallsCollision\<close>.
\<close>

fun collideWith :: "ref \<Rightarrow> ref list \<Rightarrow> GameWorld \<Rightarrow> GameWorld option" where
  "collideWith i [] w = Some w"
| "collideWith i (j # js) w =
     (case resolveBallsCollision (heap w i) (heap w j) of
        None \<Rightarrow> None
      | Some (collided, first', second') \<Rightarrow>
          let w1 = w\<lparr>heap := (heap w)(i := first', j := second')\<rparr>;
              w2 = (if collided \<and> firstCollidedBallColor (turnState w1) = None
                    then w1\<lparr>turnState := (turnState w1)\<lparr>firstCollidedBallColor :=
                              Some (if color first' = white then color second'
                                    else color first')\<rparr>\<rparr>
                    else w1)
          in collideWith i js w2)"

fun collideAll :: "ref list \<Rightarrow> GameWorld \<Rightarrow> GameWorld option" where
  "collideAll [] w = Some w"
| "collideAll (i # rest) w =
     (let w1 = w\<lparr>heap := (heap w)(i := resolveBallCollisionWithCushion (heap w i))\<rparr>
      in case collideWith i rest w1 of
           None \<Rightarrow> None
         | Some w2 \<Rightarrow> collideAll rest w2)"

definition handleCollisions :: "GameWorld \<Rightarrow> GameWorld option" where
  "handleCollisions w = collideAll (balls w) w"

definition updateBalls :: "GameWorld \<Rightarrow> GameWorld" where
  "updateBalls w = w\<lparr>heap := foldl (\<lambda>h r. h(r := ball_update (h r))) (heap w) (balls w)\<rparr>"

definition update :: "(GameWorld \<Rightarrow> GameWorld) \<Rightarrow> Env \<Rightarrow> GameWorld \<Rightarrow> GameWorld option" where
  "update ai env w =
     (if isBallInHand w then Some (handleBallInHand env w)
      else
        let w1 = handleBallsInPockets w
        in case handleCollisions w1 of
             None \<Rightarrow> None
           | Some w2 \<Rightarrow>
               let w3 = handleInput env w2;
                   w4 = w3\<lparr>stick := updateStick env (stick w3)\<rparr>;
                   w5 = updateBalls w4
               in if \<not> isBallsMoving w5 \<and> \<not> stick_visible (stick w5)
                  then Some (nextTurn ai env (concludeTurn w5))
                  else Some w5)"

section \<open>Pocketing and colour assignment, as predicates on the world before the call\<close>

text \<open>
  The ball at \<open>r\<close> is recorded as pocketed by a call of \<open>handleBallsInPockets\<close>: it lies in a
  pocket (or is already hidden) and is not yet among the pocketed balls of the turn.
\<close>

definition newlyPocketed :: "GameWorld \<Rightarrow> ref \<Rightarrow> bool" where
  "newlyPocketed w r =
     ((isInsidePocket (position (heap w r)) \<or> \<not> visible (heap w r)) \<and>
      r \<notin> set (pocketedBalls (turnState w)))"

definition assigns :: "GameWorld \<Rightarrow> ref \<Rightarrow> bool" where
  "assigns w r = (newlyPocketed w r \<and> isValidPlayerColor (color (heap w r)))"

section \<open>ai/ai-policy.ts, ai-opponent.ts, ai-trainer.ts\<close>

definition ballDistanceBonus :: real where
  "ballDistanceBonus = 1 / 5800"

definition validTurnBonus :: real where
  "validTurnBonus = 5000"

definition pocketedBallBonus :: real where
  "pocketedBallBonus = 2000"

definition invalidTurnPenalty :: real where
  "invalidTurnPenalty = 3000"

definition gameWonBonus :: real where
  "gameWonBonus = 50000"

definition gameLossPenalty :: real where
  "gameLossPenalty = 50000"

definition shotPowerMutationVariance :: real where
  "shotPowerMutationVariance = 15"

definition minShotPower :: real where
  "minShotPower = 10"

text \<open>The two nested iterations of \<open>evaluate\<close> over the pairs \<open>i < j\<close> of balls.\<close>

fun pairDistances :: "Vector2 list \<Rightarrow> real" where
  "pairDistances [] = 0"
| "pairDistances (p # ps) =
     (\<Sum>q \<leftarrow> ps. distFrom p q * ballDistanceBonus) + pairDistances ps"

definition evaluate :: "GameWorld \<Rightarrow> real" where
  "evaluate w =
     (let evaluation = 1 + pairDistances (map (\<lambda>r. position (heap w r)) (balls w))
      in if isTurnValid w then
           evaluation + validTurnBonus
             + pocketedBallBonus * real (numOfPocketedBallsOnTurn w)
             + (if isGameOver w then gameWonBonus else 0)
         else
           evaluation - invalidTurnPenalty - (if isGameOver w then gameLossPenalty else 0))"

record AIOpponent =
  opp_power :: real
  opp_rotation :: real
  evaluation :: real

text \<open>The constructor called with two arguments: the evaluation defaults to 0.\<close>

definition new_AIOpponent :: "real \<Rightarrow> real \<Rightarrow> AIOpponent" where
  "new_AIOpponent pw rot = \<lparr>opp_power = pw, opp_rotation = rot, evaluation = 0\<rparr>"

text \<open>
  \<open>init\<close> stores one object in both \<open>_currentOpponent\<close> and \<open>_bestOpponent\<close>, and \<open>train\<close>
  writes the evaluation into \<open>_currentOpponent\<close>: candidates are addresses into a store of
  \<open>AIOpponent\<close> objects, \<open>opp_next\<close> being the next unused address. \<open>soundOn\<close> and
  \<open>trainIterations\<close> are the fields of \<open>GameConfig\<close> the trainer reads and writes. The trainer
  holds the live world as \<open>initialGameWorld\<close>.
\<close>

record AITrainer =
  opp_heap :: "ref \<Rightarrow> AIOpponent"
  opp_next :: ref
  opponents :: "ref list"
  currentOpponent :: ref
  bestOpponent :: ref
  initialGameWorld :: GameWorld
  gameWorld :: GameWorld
  iteration :: nat
  finishedSession :: bool
  soundOnState :: bool
  soundOn :: bool
  trainIterations :: nat

text \<open>\<open>new AIOpponent(...)\<close>: the object takes the next unused address.\<close>

definition allocOpponent :: "AITrainer \<Rightarrow> AIOpponent \<Rightarrow> AITrainer \<times> ref" where
  "allocOpponent t opp =
     (t\<lparr>opp_heap := (opp_heap t)(opp_next t := opp), opp_next := opp_next t + 1\<rparr>, opp_next t)"

text \<open>The values of \<open>Math.random()\<close> are arguments, one for each call.\<close>

definition createRandomOpponent :: "real \<Rightarrow> real \<Rightarrow> AIOpponent" where
  "createRandomOpponent rnd1 rnd2 = new_AIOpponent (rnd1 * 75 + 1) (rnd2 * 2 * pi)"

definition createMutation :: "AIOpponent \<Rightarrow> real \<Rightarrow> real \<Rightarrow> AIOpponent" where
  "createMutation opponent rnd1 rnd2 =
     (let newPower0 = opp_power opponent
                        + ((rnd1 * 2 * shotPowerMutationVariance) - shotPowerMutationVariance);
          newPower1 = (if newPower0 < minShotPower then minShotPower else newPower0);
          newPower = (if newPower1 > maxPower then maxPower else newPower1);
          newRotation =
            (if evaluation opponent > 0
             then opp_rotation opponent + (1 / evaluation opponent) * (rnd2 * 2 * pi - pi)
             else rnd2 * 2 * pi - pi)
      in new_AIOpponent newPower newRotation)"

definition buildNewOpponent :: "AITrainer \<Rightarrow> real \<Rightarrow> real \<Rightarrow> AIOpponent" where
  "buildNewOpponent t rnd1 rnd2 =
     (if iteration t mod 10 = 0 then createRandomOpponent rnd1 rnd2
      else createMutation (opp_heap t (bestOpponent t)) rnd1 rnd2)"

definition init :: "AITrainer \<Rightarrow> real \<Rightarrow> real \<Rightarrow> AITrainer" where
  "init t rnd1 rnd2 =
     (let t1 = t\<lparr>opponents := []\<rparr>;
          (t2, a) = allocOpponent t1 (createRandomOpponent rnd1 rnd2);
          t3 = t2\<lparr>currentOpponent := a\<rparr>;
          t4 = t3\<lparr>bestOpponent := currentOpponent t3\<rparr>
      in t4\<lparr>iteration := 0\<rparr>)"

definition playTurn :: "AITrainer \<Rightarrow> AITrainer" where
  "playTurn t =
     t\<lparr>initialGameWorld :=
         shootCueBall (initialGameWorld t)
           (opp_power (opp_heap t (bestOpponent t)))
           (opp_rotation (opp_heap t (bestOpponent t)))\<rparr>"

definition simulate :: "AITrainer \<Rightarrow> AITrainer" where
  "simulate t =
     t\<lparr>gameWorld :=
         shootCueBall (gameWorld t)
           (opp_power (opp_heap t (currentOpponent t)))
           (opp_rotation (opp_heap t (currentOpponent t)))\<rparr>"

definition train :: "AITrainer \<Rightarrow> real \<Rightarrow> real \<Rightarrow> AITrainer" where
  "train t rnd1 rnd2 =
     (if iteration t = trainIterations t then
        (playTurn (t\<lparr>soundOn := soundOnState t\<rparr>))\<lparr>finishedSession := True\<rparr>
      else if isBallsMoving (gameWorld t) then t
      else
        let t1 = t\<lparr>gameWorld := concludeTurn (gameWorld t)\<rparr>;
            t2 = t1\<lparr>opp_heap := (opp_heap t1)(currentOpponent t1 :=
                       (opp_heap t1 (currentOpponent t1))\<lparr>evaluation :=
                          evaluate (gameWorld t1)\<rparr>)\<rparr>;
            (t3, current) =
               allocOpponent t2
                 \<lparr>opp_power = opp_power (opp_heap t2 (currentOpponent t2)),
                  opp_rotation = opp_rotation (opp_heap t2 (currentOpponent t2)),
                  evaluation = evaluation (opp_heap t2 (currentOpponent t2))\<rparr>;
            t4 = t3\<lparr>opponents := opponents t3 @ [current]\<rparr>;
            t5 = (if evaluation (opp_heap t4 current)
                       > evaluation (opp_heap t4 (bestOpponent t4))
                  then t4\<lparr>bestOpponent := current\<rparr> else t4);
            t6 = t5\<lparr>gameWorld := initialGameWorld t5\<rparr>;
            (t7, fresh) = allocOpponent t6 (buildNewOpponent t6 rnd1 rnd2);
            t8 = t7\<lparr>currentOpponent := fresh\<rparr>;
            t9 = t8\<lparr>iteration := iteration t8 + 1\<rparr>
        in simulate t9)"

text \<open>
  \<open>opponentTrainingLoop\<close> alternates \<open>train()\<close> and \<open>this._gameWorld.update()\<close>; the update
  touches nothing of the trainer but the simulated world. A run of the loop is given by what
  each call of \<open>train\<close> finds: the simulated world and the two random numbers.
\<close>

fun trainRun :: "(GameWorld \<times> real \<times> real) list \<Rightarrow> AITrainer \<Rightarrow> AITrainer" where
  "trainRun [] t = t"
| "trainRun ((w, rnd1, rnd2) # rest) t = trainRun rest (train (t\<lparr>gameWorld := w\<rparr>) rnd1 rnd2)"

definition bestEvaluation :: "AITrainer \<Rightarrow> real" where
  "bestEvaluation t = evaluation (opp_heap t (bestOpponent t))"

section \<open>Example inputs\<close>

text \<open>A cue ball rolling along the x-axis, fast enough to keep moving and too slow to.\<close>

definition rollingBall :: Ball where
  "rollingBall = \<lparr>position = vec 100 100, velocity = vec 10 0, color = white,
                   moving = True, visible = True\<rparr>"

definition creepingBall :: Ball where
  "creepingBall = \<lparr>position = vec 100 100, velocity = vec (4 / 100) 0, color = white,
                    moving = True, visible = True\<rparr>"

text \<open>Two overlapping balls on a horizontal line, approaching each other head-on.\<close>

definition headOnFirst :: Ball where
  "headOnFirst = \<lparr>position = vec 500 400, velocity = vec 5 0, color = white,
                   moving = True, visible = True\<rparr>"

definition headOnSecond :: Ball where
  "headOnSecond = \<lparr>position = vec 530 400, velocity = vec (- 5) 0, color = red,
                    moving = True, visible = True\<rparr>"



text \<open>
  Worlds late in a match: both players have cleared their colour, the cue ball and the black
  ball are left on the table. In \<open>blackPottedWorld\<close> the first player has touched a yellow
  ball first and pocketed the black ball, and the turn has been concluded.
\<close>

definition new_Player :: Player where
  "new_Player = \<lparr>player_color = None, matchScore = 0, overallScore = 0\<rparr>"

definition endgameWorld :: GameWorld where
  "endgameWorld =
     \<lparr>stick = new_Stick cueBallPosition, cueBall = 0, eightBall = 1, balls = [0, 1],
      heap = (\<lambda>r. if r = 0 then new_Ball cueBallPosition white
                   else new_Ball eightBallPosition black),
      players = [\<lparr>player_color = Some red, matchScore = 7, overallScore = 0\<rparr>,
                 \<lparr>player_color = Some yellow, matchScore = 7, overallScore = 0\<rparr>],
      currentPlayerIndex = 0, turnState = new_State\<rparr>"

definition inHandWorld :: GameWorld where
  "inHandWorld = endgameWorld\<lparr>turnState := new_State\<lparr>ballInHand := True\<rparr>\<rparr>"

definition blackPottedWorld :: GameWorld where
  "blackPottedWorld =
     endgameWorld
       \<lparr>heap := (heap endgameWorld)(1 := hide (heap endgameWorld 1)), balls := [0],
        players := [\<lparr>player_color = Some red, matchScore = 8, overallScore = 0\<rparr>,
                    \<lparr>player_color = Some yellow, matchScore = 8, overallScore = 0\<rparr>],
        turnState := \<lparr>firstCollidedBallColor = Some yellow, pocketedBalls = [1],
                       ballInHand = False, isValid = False\<rparr>\<rparr>"

text \<open>
  The rack of \<open>initMatch\<close>, except that the red ball at address 7 has come to rest on the
  centre of a pocket at the end of the first player's turn. The second player is to move,
  neither player has a colour, and no ball has been touched in the turn.
\<close>

definition breakBalls :: "Ball list" where
  "breakBalls =
     map (\<lambda>pos. new_Ball pos yellow) redBallsPositions @
     map (\<lambda>pos. new_Ball pos red) yellowBallsPositions @
     [new_Ball eightBallPosition black, new_Ball cueBallPosition white]"

definition restingInPocketWorld :: GameWorld where
  "restingInPocketWorld =
     \<lparr>stick = new_Stick cueBallPosition, cueBall = 15, eightBall = 14,
      balls = [0, 1, 2, 3, 4, 5, 6, 7, 8, 9, 10, 11, 12, 13, 14, 15],
      heap = (\<lambda>r. if r = 7 then new_Ball (vec 62 62) red else breakBalls ! r),
      players = [new_Player, new_Player], currentPlayerIndex = 1,
      turnState = new_State\<rparr>"

text \<open>Two-player mode (\<open>GameConfig.ai.on = false\<close>), the mouse at a position.\<close>

definition mouseAt :: "Vector2 \<Rightarrow> bool \<Rightarrow> Env" where
  "mouseAt pos pressed =
     \<lparr>mouse_position = pos, mouse_pressed = pressed, key_increase = False,
      key_decrease = False, ai_on = False, ai_finishedSession = True\<rparr>"

text \<open>
  A world late in a match, at the end of a shot of the first player, who plays red: the cue
  ball has touched the yellow ball first, the red ball at address 3 has been pocketed in the
  shot, and one red ball, one yellow ball and the black ball are left on the table.
\<close>

definition oneRedLeftWorld :: GameWorld where
  "oneRedLeftWorld =
     \<lparr>stick = stick_hide (new_Stick cueBallPosition), cueBall = 0, eightBall = 1,
      balls = [0, 1, 2, 3, 4],
      heap = (\<lambda>r. if r = 0 then new_Ball cueBallPosition white
                   else if r = 1 then new_Ball eightBallPosition black
                   else if r = 2 then new_Ball (vec 600 300) red
                   else if r = 3 then hide (new_Ball (vec 62 62) red)
                   else new_Ball (vec 900 500) yellow),
      players = [\<lparr>player_color = Some red, matchScore = 5, overallScore = 0\<rparr>,
                 \<lparr>player_color = Some yellow, matchScore = 6, overallScore = 0\<rparr>],
      currentPlayerIndex = 0,
      turnState = \<lparr>firstCollidedBallColor = Some yellow, pocketedBalls = [3],
                   ballInHand = False, isValid = False\<rparr>\<rparr>"

text \<open>The endgame world after a legal shot that pocketed nothing.\<close>

definition legalShotWorld :: GameWorld where
  "legalShotWorld =
     endgameWorld\<lparr>turnState := new_State\<lparr>firstCollidedBallColor := Some black\<rparr>\<rparr>"






text \<open>A trainer before \<open>startSession\<close>, at the easy level of the menu (30 iterations).\<close>

definition idleTrainer :: AITrainer where
  "idleTrainer =
     \<lparr>opp_heap = (\<lambda>a. new_AIOpponent 50 0), opp_next = 0, opponents = [],
      currentOpponent = 0, bestOpponent = 0, initialGameWorld = endgameWorld,
      gameWorld = endgameWorld, iteration = 0, finishedSession = True,
      soundOnState = True, soundOn = True, trainIterations = 30\<rparr>"

section \<open>Invariant of the trainer's candidates\<close>

text \<open>
  Both candidates are allocated. Until the first iteration has been evaluated the current
  and the best candidate are one object, which carries the constructor's evaluation 0; from
  then on the current candidate is an object of its own.
\<close>

definition trainer_inv :: "AITrainer \<Rightarrow> bool" where
  "trainer_inv t =
     (bestOpponent t < opp_next t \<and> currentOpponent t < opp_next t \<and>
      (0 < iteration t \<longrightarrow> currentOpponent t \<noteq> bestOpponent t) \<and>
      (iteration t = 0 \<longrightarrow>
         currentOpponent t = bestOpponent t \<and> evaluation (opp_heap t (bestOpponent t)) = 0))"

section \<open>Referee: first touch\<close>

text \<open>
  The match score the referee reads: \<open>concludeTurn\<close> sets the score of a player with a
  colour to 8 minus the number of balls of that colour left in the list minus the number of
  black balls left, just before it asks the referee.
\<close>

lemma removePocketed_frame:
  "players (foldl removePocketed w rs) = players w"
  "currentPlayerIndex (foldl removePocketed w rs) = currentPlayerIndex w"
  "heap (foldl removePocketed w rs) = heap w"
  by (induction rs arbitrary: w) (simp_all add: removePocketed_def Let_def)

lemma concludeTurn_matchScore:
  assumes "length (players w) = 2" "currentPlayerIndex w < 2"
    and "player_color (currentPlayer w) = Some c"
  shows "matchScore (currentPlayer (concludeTurn w)) =
           8 - int (length (getBallsByColor (concludeTurn w) c))
             - int (length (getBallsByColor (concludeTurn w) black))"
proof -
  define w1 where "w1 = foldl removePocketed w (pocketedBalls (turnState w))"
  define w2 where "w2 = (case player_color (currentPlayer w1) of
                  Some c \<Rightarrow>
                    w1\<lparr>players := (players w1)[currentPlayerIndex w1 :=
                          (currentPlayer w1)\<lparr>matchScore :=
                             8 - int (length (getBallsByColor w1 c))
                               - int (length (getBallsByColor w1 black))\<rparr>]\<rparr>
                | None \<Rightarrow> w1)"
  define w3 where "w3 = (case player_color (nextPlayer w2) of
                  Some c \<Rightarrow>
                    w2\<lparr>players := (players w2)[nextPlayerIndex w2 :=
                          (nextPlayer w2)\<lparr>matchScore :=
                             8 - int (length (getBallsByColor w2 c))
                               - int (length (getBallsByColor w2 black))\<rparr>]\<rparr>
                | None \<Rightarrow> w2)"
  have run: "concludeTurn w = w3\<lparr>turnState := (turnState w3)\<lparr>isValid :=
                             isValidTurn (currentPlayer w3) (heap w3) (turnState w3)\<rparr>\<rparr>"
    unfolding concludeTurn_def Let_def w3_def w2_def w1_def ..
  have f1: "players w1 = players w" "currentPlayerIndex w1 = currentPlayerIndex w"
    by (simp_all add: w1_def removePocketed_frame)
  have c1: "player_color (currentPlayer w1) = Some c"
    using assms(3) by (simp add: currentPlayer_def f1)
  have f2: "players w2 = (players w)[currentPlayerIndex w :=
                          (currentPlayer w)\<lparr>matchScore :=
                             8 - int (length (getBallsByColor w1 c))
                               - int (length (getBallsByColor w1 black))\<rparr>]"
    "currentPlayerIndex w2 = currentPlayerIndex w" "balls w2 = balls w1" "heap w2 = heap w1"
    using c1 by (simp_all add: w2_def f1 currentPlayer_def)
  have "currentPlayerIndex w = 0 \<or> currentPlayerIndex w = 1"
    using assms(2) by auto
  then have ne: "nextPlayerIndex w2 \<noteq> currentPlayerIndex w"
    using assms(1) by (auto simp: nextPlayerIndex_def f2)
  have f3: "players w3 ! currentPlayerIndex w = players w2 ! currentPlayerIndex w"
    "currentPlayerIndex w3 = currentPlayerIndex w" "balls w3 = balls w1" "heap w3 = heap w1"
    using ne by (simp_all add: w3_def f2(2-) split: option.splits)
  have g: "getBallsByColor (concludeTurn w) k = getBallsByColor w1 k" for k
    by (simp add: run getBallsByColor_def f3)
  show ?thesis
    using assms(1,2) by (simp add: g) (simp add: run currentPlayer_def f3 f2)
qed

text \<open>What \<open>concludeTurn\<close> leaves in the two example worlds.\<close>

lemma concludeTurn_oneRedLeftWorld:
  "balls (concludeTurn oneRedLeftWorld) = [0, 1, 2, 4]"
  "getBallsByColor (concludeTurn oneRedLeftWorld) red = [2]"
  "currentPlayer (concludeTurn oneRedLeftWorld) =
     \<lparr>player_color = Some red, matchScore = 6, overallScore = 0\<rparr>"
  "turnState (concludeTurn oneRedLeftWorld) =
     \<lparr>firstCollidedBallColor = Some yellow, pocketedBalls = [3], ballInHand = False,
      isValid = False\<rparr>"
  by (simp_all add: concludeTurn_def oneRedLeftWorld_def Let_def removePocketed_def
      splice1_def getBallsByColor_def currentPlayer_def nextPlayer_def nextPlayerIndex_def
      isValidTurn_def isValidFirstTouch_def new_Ball_def hide_def)

lemma concludeTurn_legalShotWorld:
  "getBallsByColor (concludeTurn legalShotWorld) red = []"
  "currentPlayer (concludeTurn legalShotWorld) =
     \<lparr>player_color = Some red, matchScore = 7, overallScore = 0\<rparr>"
  "turnState (concludeTurn legalShotWorld) =
     \<lparr>firstCollidedBallColor = Some black, pocketedBalls = [], ballInHand = False,
      isValid = True\<rparr>"
  by (simp_all add: concludeTurn_def legalShotWorld_def endgameWorld_def Let_def new_State_def
      getBallsByColor_def currentPlayer_def nextPlayer_def nextPlayerIndex_def
      isValidTurn_def isValidFirstTouch_def isValidPocketedBalls_def new_Ball_def)

text \<open>
  C1 (as stated) fails. The referee tests the player's match score, which \<open>concludeTurn\<close>
  has just set to 8 minus the number of the player's balls left minus the number of black
  balls left; it does not test the number of remaining object balls.

  \<^item> In \<open>oneRedLeftWorld\<close> the player has exactly one red ball left (match score 6), has
    pocketed a ball in the turn and has touched a yellow ball first: the claimed rule accepts
    the touch by its second alternative, the referee refuses it, and the turn is invalid.

  \<^item> In \<open>legalShotWorld\<close> the player is on the black with no red ball left (match score 7,
    not 7 or 8 balls remaining) and has touched the black ball: the claimed rule refuses the
    touch, the referee accepts it.

  \<^item> With match score 1 and a ball pocketed, the referee refuses a first touch of the black
    ball: stated on the match score, the second alternative holds only with the referee's
    guard that the touched ball is not black.
\<close>

theorem C1_first_touch_remaining_counterexample:
  "length (getBallsByColor (concludeTurn oneRedLeftWorld) red) = 1 \<and>
   currentPlayer (concludeTurn oneRedLeftWorld) =
     \<lparr>player_color = Some red, matchScore = 6, overallScore = 0\<rparr> \<and>
   firstCollidedBallColor (turnState (concludeTurn oneRedLeftWorld)) = Some yellow \<and>
   pocketedBalls (turnState (concludeTurn oneRedLeftWorld)) = [3] \<and>
   claimed_firstTouch (Some red) 1 (Some yellow) True \<and>
   \<not> isValidFirstTouch \<lparr>player_color = Some red, matchScore = 6, overallScore = 0\<rparr>
        (Some yellow) True \<and>
   \<not> isValid (turnState (concludeTurn oneRedLeftWorld)) \<and>
   length (getBallsByColor (concludeTurn legalShotWorld) red) = 0 \<and>
   currentPlayer (concludeTurn legalShotWorld) =
     \<lparr>player_color = Some red, matchScore = 7, overallScore = 0\<rparr> \<and>
   firstCollidedBallColor (turnState (concludeTurn legalShotWorld)) = Some black \<and>
   pocketedBalls (turnState (concludeTurn legalShotWorld)) = [] \<and>
   \<not> claimed_firstTouch (Some red) 0 (Some black) False \<and>
   isValidFirstTouch \<lparr>player_color = Some red, matchScore = 7, overallScore = 0\<rparr>
     (Some black) False \<and>
   isValid (turnState (concludeTurn legalShotWorld)) \<and>
   \<not> isValidFirstTouch \<lparr>player_color = Some red, matchScore = 1, overallScore = 0\<rparr>
        (Some black) True"
  by (simp add: concludeTurn_oneRedLeftWorld concludeTurn_legalShotWorld
      claimed_firstTouch_def isValidFirstTouch_def)

text \<open>
  C1 (amended): the referee's first-touch check is invalid when no ball-ball collision
  occurred; for a player without a colour it is valid exactly when the touched ball is not
  black; otherwise it is valid exactly when the touched colour is the player's colour, or the
  player's match score is 1 and something was pocketed and the touched ball is not black, or
  the player's match score is 7 or 8 and the touched ball is black.
\<close>

theorem C1_first_touch_amended:
  "isValidFirstTouch player touched somePocketed = amended_firstTouch player touched somePocketed"
  by (cases touched; cases "player_color player")
     (auto simp: isValidFirstTouch_def amended_firstTouch_def)

section \<open>Vector facts\<close>

lemma v2x_vec: "v2x (vec a b) = a"
  by (simp add: vec_def)

lemma v2y_vec: "v2y (vec a b) = b"
  by (simp add: vec_def)

lemma vec_eq_iff: "(vec a b = vec c d) = (a = c \<and> b = d)"
  by (simp add: vec_def)

lemma length_v_mult: "length_v (mult v k) = \<bar>k\<bar> * length_v v"
  unfolding length_v_def mult_def vec_def
  by (simp add: power_mult_distrib flip: distrib_right real_sqrt_mult real_sqrt_abs)

lemma length_v_axis_x: "length_v (vec a 0) = \<bar>a\<bar>"
  by (simp add: length_v_def vec_def)


lemma length_v_pos_iff: "(0 < length_v v) = (v2x v \<noteq> 0 \<or> v2y v \<noteq> 0)"
  unfolding length_v_def by (simp add: sum_power2_gt_zero_iff)

section \<open>Ball motion and friction\<close>

lemma ball_update_rest: "\<not> moving b \<Longrightarrow> (ball_update ^^ n) b = b"
  by (induction n) (simp_all add: ball_update_def)

text \<open>
  C5: for a moving ball one tick of \<open>Ball.update\<close> advances the position by the velocity
  already scaled by \<open>1 - friction\<close>. If the scaled speed is below \<open>minVelocityLength\<close> the
  velocity becomes exactly zero, \<open>moving\<close> becomes false and every further tick leaves the
  ball unchanged. Otherwise the ball keeps the scaled velocity, stays moving and its speed
  is strictly smaller than before the tick.
\<close>

theorem C5_ball_update_friction:
  assumes "moving b"
  shows "let v = mult (velocity b) (1 - friction); b' = ball_update b in
           position b' = add (position b) v \<and>
           (length_v v < minVelocityLength \<longrightarrow>
              velocity b' = zero \<and> \<not> moving b' \<and> (\<forall>n. (ball_update ^^ n) b' = b')) \<and>
           (\<not> length_v v < minVelocityLength \<longrightarrow>
              velocity b' = v \<and> moving b' \<and> length_v (velocity b') < length_v (velocity b))"
proof -
  define v where "v = mult (velocity b) (1 - friction)"
  define b' where "b' = ball_update b"
  have pos: "position b' = add (position b) v"
    using assms by (simp add: b'_def v_def ball_update_def Let_def set_velocity_def)
  have stop: "velocity b' = zero \<and> \<not> moving b' \<and> (\<forall>n. (ball_update ^^ n) b' = b')"
    if "length_v v < minVelocityLength"
  proof -
    have "velocity b' = zero" "\<not> moving b'"
      using assms that by (simp_all add: b'_def v_def ball_update_def Let_def set_velocity_def)
    then show ?thesis by (simp add: ball_update_rest)
  qed
  have go: "velocity b' = v \<and> moving b' \<and> length_v (velocity b') < length_v (velocity b)"
    if "\<not> length_v v < minVelocityLength"
  proof -
    have v': "velocity b' = v" and m: "moving b'"
      using assms that by (simp_all add: b'_def v_def ball_update_def Let_def)
    have "0 < length_v v"
      using that by (simp add: minVelocityLength_def)
    then have "0 < length_v (velocity b)"
      by (simp add: v_def length_v_mult friction_def zero_less_mult_iff)
    then have "length_v v < length_v (velocity b)"
      by (simp add: v_def length_v_mult friction_def)
    with v' m show ?thesis by simp
  qed
  from pos stop go show ?thesis
    unfolding v_def b'_def Let_def by blast
qed

lemmas vec_ops = add_def subtract_def mult_def dot_def v2x_vec v2y_vec

theorem C5_ball_update_friction_witness:
  "moving rollingBall \<and>
   position (ball_update rollingBall) = vec (10982 / 100) 100 \<and>
   velocity (ball_update rollingBall) = vec (982 / 100) 0 \<and>
   moving creepingBall \<and>
   velocity (ball_update creepingBall) = zero \<and>
   ball_update (ball_update creepingBall) = ball_update creepingBall"
proof -
  have m: "moving rollingBall" "moving creepingBall"
    by (simp_all add: rollingBall_def creepingBall_def)
  have fast: "\<not> length_v (mult (velocity rollingBall) (1 - friction)) < minVelocityLength"
    by (simp add: rollingBall_def mult_def v2x_vec v2y_vec length_v_axis_x friction_def
        minVelocityLength_def)
  have slow: "length_v (mult (velocity creepingBall) (1 - friction)) < minVelocityLength"
    by (simp add: creepingBall_def mult_def v2x_vec v2y_vec length_v_axis_x friction_def
        minVelocityLength_def)
  have "position (ball_update rollingBall) = vec (10982 / 100) 100"
       "velocity (ball_update rollingBall) = vec (982 / 100) 0"
    using C5_ball_update_friction [OF m(1)] fast
    by (simp_all add: Let_def rollingBall_def vec_ops friction_def vec_eq_iff)
  moreover have "velocity (ball_update creepingBall) = zero"
    "(ball_update ^^ 1) (ball_update creepingBall) = ball_update creepingBall"
    using C5_ball_update_friction [OF m(2)] slow
    unfolding Let_def by blast+
  ultimately show ?thesis using m by simp
qed

section \<open>Ball-ball collisions\<close>


lemma exchange_normal:
  fixes a b p q k :: real
  assumes "a * a + b * b = 1"
  shows "a * ((a * q + (- b) * p) * k) + b * ((b * q + a * p) * k) = k * q"
proof -
  have "a * ((a * q + (- b) * p) * k) + b * ((b * q + a * p) * k) = k * q * (a * a + b * b)"
    by (simp add: algebra_simps)
  then show ?thesis using assms by simp
qed

lemma keep_tangent:
  fixes a b p q k :: real
  assumes "a * a + b * b = 1"
  shows "(- b) * ((a * q + (- b) * p) * k) + a * ((b * q + a * p) * k) = k * p"
proof -
  have "(- b) * ((a * q + (- b) * p) * k) + a * ((b * q + a * p) * k) = k * p * (a * a + b * b)"
    by (simp add: algebra_simps)
  then show ?thesis using assms by simp
qed

text \<open>
  C2: two visible balls whose centres are distinct and at most one diameter apart collide.
  With \<open>n\<close> the vector from the second centre to the first, \<open>dist\<close> its length, \<open>un\<close>
  the unit normal and \<open>ut\<close> the unit tangent, the resolver moves the first ball by
  \<open>(diameter - dist) / 2\<close> along \<open>un\<close> and the second by the same amount against it; the
  normal components of the two velocities are exchanged, the tangential components are kept,
  and all of them are scaled by \<open>1 - collisionLoss\<close>. For centres on a horizontal line and
  velocities \<open>(5, 0)\<close> and \<open>(-5, 0)\<close> the velocities afterwards are
  \<open>(-5 (1 - collisionLoss), 0)\<close> and \<open>(5 (1 - collisionLoss), 0)\<close>. (Coincident centres have
  no normal; they are the subject of C3.)
\<close>

theorem C2_elastic_exchange:
  assumes vis: "visible first" "visible second"
      and ne: "position first \<noteq> position second"
      and le: "distFrom (position first) (position second) \<le> diameter"
  shows "\<exists>first' second'.
           resolveBallsCollision first second = Some (True, first', second') \<and>
           (let n = subtract (position first) (position second);
                dist = length_v n;
                un = mult n (1 / dist);
                ut = vec (- v2y un) (v2x un);
                keep = 1 - collisionLoss
            in position first' = add (position first) (mult un ((diameter - dist) / 2)) \<and>
               position second' = subtract (position second) (mult un ((diameter - dist) / 2)) \<and>
               dot un (velocity first') = keep * dot un (velocity second) \<and>
               dot ut (velocity first') = keep * dot ut (velocity first) \<and>
               dot un (velocity second') = keep * dot un (velocity first) \<and>
               dot ut (velocity second') = keep * dot ut (velocity second) \<and>
               (v2y n = 0 \<and> velocity first = vec 5 0 \<and> velocity second = vec (- 5) 0 \<longrightarrow>
                  velocity first' = vec (- 5 * keep) 0 \<and> velocity second' = vec (5 * keep) 0))"
proof -
  define n where "n = subtract (position first) (position second)"
  define d where "d = length_v n"
  define nx where "nx = v2x n"
  define ny where "ny = v2y n"
  define keep where "keep = 1 - collisionLoss"
  have dpos: "0 < d"
    using ne unfolding d_def n_def length_v_pos_iff
    by (cases "position first"; cases "position second") (auto simp: vec_ops)
  have dsq: "nx * nx + ny * ny = d * d"
    unfolding d_def nx_def ny_def length_v_def
    by (simp add: power2_eq_square [symmetric])
  have dle: "\<not> d > diameter"
    using le by (simp add: d_def n_def distFrom_def)
  define un where "un = mult n (1 / d)"
  define ut where "ut = vec (- v2y un) (v2x un)"
  define a where "a = v2x un"
  define b where "b = v2y un"
  have ab: "a = nx / d" "b = ny / d"
    by (simp_all add: a_def b_def un_def nx_def ny_def vec_ops)
  have unit: "a * a + b * b = 1"
    using dpos dsq by (simp add: ab field_simps)
  have ut: "v2x ut = - b" "v2y ut = a"
    by (simp_all add: ut_def a_def b_def vec_ops)
  define V1 where "V1 = mult (add (mult un (dot un (velocity second))) (mult ut (dot ut (velocity first)))) keep"
  define V2 where "V2 = mult (add (mult un (dot un (velocity first))) (mult ut (dot ut (velocity second)))) keep"
  define f' where "f' = first\<lparr>position := add (position first) (mult (mult n ((diameter - d) / d)) (1 / 2)),
                              moving := 0 < length_v V1, velocity := V1\<rparr>"
  define s' where "s' = second\<lparr>position := subtract (position second) (mult (mult n ((diameter - d) / d)) (1 / 2)),
                              moving := 0 < length_v V2, velocity := V2\<rparr>"
  have res: "resolveBallsCollision first second = Some (True, f', s')"
    using vis dpos dle
    unfolding f'_def s'_def V1_def V2_def ut_def un_def d_def n_def keep_def
    by (simp add: resolveBallsCollision_def Let_def set_velocity_def)
  have half: "mult (mult n ((diameter - d) / d)) (1 / 2) = mult un ((diameter - d) / 2)"
    using dpos by (simp add: un_def vec_ops vec_eq_iff)
  have p1: "position f' = add (position first) (mult un ((diameter - d) / 2))"
    by (simp add: f'_def half)
  have p2: "position s' = subtract (position second) (mult un ((diameter - d) / 2))"
    by (simp add: s'_def half)
  have v1x: "v2x (velocity f') = (a * dot un (velocity second) + (- b) * dot ut (velocity first)) * keep"
    and v1y: "v2y (velocity f') = (b * dot un (velocity second) + a * dot ut (velocity first)) * keep"
    and v2x: "v2x (velocity s') = (a * dot un (velocity first) + (- b) * dot ut (velocity second)) * keep"
    and v2y: "v2y (velocity s') = (b * dot un (velocity first) + a * dot ut (velocity second)) * keep"
    by (simp_all add: f'_def s'_def V1_def V2_def add_def mult_def v2x_vec v2y_vec ut
        a_def [symmetric] b_def [symmetric])
  have n1: "dot un (velocity f') = keep * dot un (velocity second)"
    unfolding dot_def [of un "velocity f'"] v1x v1y a_def [symmetric] b_def [symmetric]
    by (rule exchange_normal [OF unit])
  have t1: "dot ut (velocity f') = keep * dot ut (velocity first)"
    unfolding dot_def [of ut "velocity f'"] v1x v1y ut
    by (rule keep_tangent [OF unit])
  have n2: "dot un (velocity s') = keep * dot un (velocity first)"
    unfolding dot_def [of un "velocity s'"] v2x v2y a_def [symmetric] b_def [symmetric]
    by (rule exchange_normal [OF unit])
  have t2: "dot ut (velocity s') = keep * dot ut (velocity second)"
    unfolding dot_def [of ut "velocity s'"] v2x v2y ut
    by (rule keep_tangent [OF unit])
  have headon: "velocity f' = vec (- 5 * keep) 0 \<and> velocity s' = vec (5 * keep) 0"
    if "v2y n = 0" "velocity first = vec 5 0" "velocity second = vec (- 5) 0"
  proof -
    have b0: "b = 0" using that(1) by (simp add: ab ny_def)
    with unit have aa: "a * a = 1" by simp
    have "velocity f' = vec (v2x (velocity f')) (v2y (velocity f'))"
         "velocity s' = vec (v2x (velocity s')) (v2y (velocity s'))"
      by (simp_all add: vec_def)
    moreover have "v2x (velocity f') = - 5 * keep" "v2y (velocity f') = 0"
                  "v2x (velocity s') = 5 * keep" "v2y (velocity s') = 0"
      using aa unfolding v1x v1y v2x v2y
      by (simp_all add: that b0 dot_def v2x_vec v2y_vec ut a_def [symmetric] b_def [symmetric]
          mult.assoc [symmetric])
    ultimately show ?thesis by simp
  qed
  show ?thesis
    apply (rule exI [of _ f'], rule exI [of _ s'])
    unfolding Let_def
    using res p1 p2 n1 t1 n2 t2 headon
    unfolding n_def [symmetric] d_def [symmetric] un_def [symmetric] ut_def [symmetric] keep_def [symmetric]
    by blast
qed

theorem C2_elastic_exchange_witness:
  "visible headOnFirst \<and> visible headOnSecond \<and>
   position headOnFirst \<noteq> position headOnSecond \<and>
   distFrom (position headOnFirst) (position headOnSecond) \<le> diameter \<and>
   (\<exists>first' second'.
      resolveBallsCollision headOnFirst headOnSecond = Some (True, first', second') \<and>
      velocity first' = vec (- 5 * (1 - collisionLoss)) 0 \<and>
      velocity second' = vec (5 * (1 - collisionLoss)) 0)"
proof -
  have h: "visible headOnFirst" "visible headOnSecond"
    "position headOnFirst \<noteq> position headOnSecond"
    "distFrom (position headOnFirst) (position headOnSecond) \<le> diameter"
    by (simp_all add: headOnFirst_def headOnSecond_def vec_eq_iff distFrom_def subtract_def
        v2x_vec v2y_vec length_v_axis_x diameter_def)
  have e: "v2y (subtract (position headOnFirst) (position headOnSecond)) = 0"
    "velocity headOnFirst = vec 5 0" "velocity headOnSecond = vec (- 5) 0"
    by (simp_all add: headOnFirst_def headOnSecond_def subtract_def v2x_vec v2y_vec)
  from C2_elastic_exchange [OF h] h e show ?thesis
    unfolding Let_def by blast
qed

section \<open>Coincident centres\<close>

lemmas jvec_defs = jvec_def jlength_def jvadd_def jvsubtract_def jvmult_def jvdot_def jsub_def
  jset_velocity_def jfin_def jball_def

lemma jfin_ops:
  "jvsubtract (jfin a) (jfin b) = jfin (subtract a b)"
  "jvadd (jfin a) (jfin b) = jfin (add a b)"
  "jvmult (jfin a) (Fin k) = jfin (mult a k)"
  "jvdot (jfin a) (jfin b) = Fin (dot a b)"
  "jlength (jfin a) = Fin (length_v a)"
  "jvec (jneg (jy (jfin a))) (jx (jfin a)) = jfin (vec (- v2y a) (v2x a))"
  "jsub (Fin p) (Fin q) = Fin (p - q)"
  by (simp_all add: jvec_defs subtract_def add_def mult_def dot_def length_v_def v2x_vec v2y_vec
      power2_eq_square not_less)

lemma jball_ops:
  "jset_velocity (jball b) (jfin v) = jball (set_velocity b v)"
  "(jball b)\<lparr>jposition := jfin p\<rparr> = jball (b\<lparr>position := p\<rparr>)"
  "jvelocity (jball b) = jfin (velocity b)"
  "jposition (jball b) = jfin (position b)"
  "jvisible (jball b) = visible b"
  by (simp_all add: jball_def jset_velocity_def set_velocity_def jfin_ops)

text \<open>
  On balls with finite coordinates and distinct centres the resolver on IEEE values computes
  what the resolver on the reals computes.
\<close>

lemma resolveBallsCollision_ieee_agrees:
  assumes "position f \<noteq> position s"
  shows "Some (resolveBallsCollision_ieee (jball f) (jball s)) =
         map_option (\<lambda>(c, f', s'). (c, jball f', jball s')) (resolveBallsCollision f s)"
proof -
  have "0 < length_v (subtract (position f) (position s))"
    using assms unfolding length_v_pos_iff
    by (cases "position f"; cases "position s") (auto simp: subtract_def v2x_vec v2y_vec)
  then show ?thesis
    by (simp add: resolveBallsCollision_ieee_def resolveBallsCollision_def Let_def
        jfin_ops jball_ops)
qed

text \<open>
  C3 fails on the code: for two visible balls with the same (finite) centre the resolver has
  no fallback. It reports a collision, \<open>(diameter - 0) / 0\<close> is \<open>Infinity\<close>, the zero normal
  times \<open>Infinity\<close> is NaN, and both coordinates of the position and of the velocity of both
  balls are NaN afterwards.
\<close>

theorem C3_coincident_centres_nan:
  "resolveBallsCollision_ieee
     \<lparr>jposition = jvec (Fin a) (Fin b), jvelocity = jvec (Fin c) (Fin d),
      jmoving = m1, jvisible = True\<rparr>
     \<lparr>jposition = jvec (Fin a) (Fin b), jvelocity = jvec (Fin e) (Fin f),
      jmoving = m2, jvisible = True\<rparr>
   = (True,
      \<lparr>jposition = jvec NaN NaN, jvelocity = jvec NaN NaN, jmoving = False, jvisible = True\<rparr>,
      \<lparr>jposition = jvec NaN NaN, jvelocity = jvec NaN NaN, jmoving = False, jvisible = True\<rparr>)"
  by (simp add: resolveBallsCollision_ieee_def jvec_defs Let_def diameter_def jinf_def)

theorem C3_coincident_centres_nan_witness:
  "jposition (fst (snd (resolveBallsCollision_ieee
     \<lparr>jposition = jvec (Fin 413) (Fin 413), jvelocity = jvec (Fin 1) (Fin 0),
      jmoving = True, jvisible = True\<rparr>
     \<lparr>jposition = jvec (Fin 413) (Fin 413), jvelocity = jvec (Fin 0) (Fin 0),
      jmoving = False, jvisible = True\<rparr>))) = jvec NaN NaN \<and>
   \<not> isFinite (jx (jvelocity (snd (snd (resolveBallsCollision_ieee
     \<lparr>jposition = jvec (Fin 413) (Fin 413), jvelocity = jvec (Fin 1) (Fin 0),
      jmoving = True, jvisible = True\<rparr>
     \<lparr>jposition = jvec (Fin 413) (Fin 413), jvelocity = jvec (Fin 0) (Fin 0),
      jmoving = False, jvisible = True\<rparr>)))))"
  using C3_coincident_centres_nan [of 413 413 1 0 True 0 0 False]
  by (simp add: jvec_def)

section \<open>Distances\<close>

lemma sqrt_le_iff_sq: "0 \<le> r \<Longrightarrow> (sqrt a \<le> r) = (a \<le> r\<^sup>2)"
  using real_sqrt_le_iff [of a "r\<^sup>2"] by simp

lemma less_sqrt_iff_sq: "0 \<le> r \<Longrightarrow> (r < sqrt a) = (r\<^sup>2 < a)"
  using real_sqrt_less_iff [of "r\<^sup>2" a] by simp

lemma distFrom_vec_le:
  "0 \<le> r \<Longrightarrow> (distFrom (vec a b) (vec c d) \<le> r) = ((a - c)\<^sup>2 + (b - d)\<^sup>2 \<le> r\<^sup>2)"
  by (simp add: distFrom_def length_v_def subtract_def v2x_vec v2y_vec sqrt_le_iff_sq)

lemma distFrom_vec_gt:
  "0 \<le> r \<Longrightarrow> (r < distFrom (vec a b) (vec c d)) = (r\<^sup>2 < (a - c)\<^sup>2 + (b - d)\<^sup>2)"
  by (simp add: distFrom_def length_v_def subtract_def v2x_vec v2y_vec less_sqrt_iff_sq)

lemma isInsidePocket_vec:
  "isInsidePocket (vec a b) =
     ((a - 62)\<^sup>2 + (b - 62)\<^sup>2 \<le> 2304 \<or> (a - 750)\<^sup>2 + (b - 32)\<^sup>2 \<le> 2304 \<or>
      (a - 1435)\<^sup>2 + (b - 62)\<^sup>2 \<le> 2304 \<or> (a - 62)\<^sup>2 + (b - 762)\<^sup>2 \<le> 2304 \<or>
      (a - 750)\<^sup>2 + (b - 794)\<^sup>2 \<le> 2304 \<or> (a - 1435)\<^sup>2 + (b - 762)\<^sup>2 \<le> 2304)"
  by (simp add: isInsidePocket_def pocketsPositions_def pocketRadius_def distFrom_vec_le)

section \<open>Cushions\<close>

lemmas border_defs =
  isBallPosOutsideTopBorder_def isBallPosOutsideLeftBorder_def
  isBallPosOutsideRightBorder_def isBallPosOutsideBottomBorder_def
  gameSize_def cushionWidth_def diameter_def v2x_vec v2y_vec










































lemma resolve_resting:
  "resolveBallCollisionWithCushion (new_Ball eightBallPosition black) =
     new_Ball eightBallPosition black"
  by (simp add: new_Ball_def eightBallPosition_def zero_def resolveBallCollisionWithCushion_def
      border_defs nextPosition_def vec_ops)


















section \<open>Turn hand-off\<close>

text \<open>
  C6 (amended): when a turn concludes and the game is not over, \<open>nextTurn\<close> hands the world
  \<open>w'\<close> to the AI hook (which runs only on the AI's turn): in \<open>w'\<close> the current player is
  the other player exactly when the concluded turn was invalid or no ball was pocketed, and
  the same player otherwise; the turn state is a fresh one whose \<open>ballInHand\<close> is true
  exactly when the concluded turn was invalid; the players are unchanged.
\<close>

theorem C6_hand_off_unless_game_over:
  assumes "\<not> isGameOver w" and "length (players w) = 2" and "currentPlayerIndex w < 2"
  shows "\<exists>w'. nextTurn ai env w = (if isAITurn env w' then ai w' else w') \<and>
           currentPlayerIndex w' =
             (if \<not> isValid (turnState w) \<or> pocketedBalls (turnState w) = []
              then 1 - currentPlayerIndex w else currentPlayerIndex w) \<and>
           turnState w' = new_State\<lparr>ballInHand := \<not> isValid (turnState w)\<rparr> \<and>
           players w' = players w"
proof -
  define foul where "foul = (\<not> isValid (turnState w))"
  define w1 where "w1 = (if \<not> visible (heap w (cueBall w))
                     then w\<lparr>heap := (heap w)(cueBall w :=
                                      show_ball (heap w (cueBall w)) cueBallPosition)\<rparr>
                     else w)"
  define w2 where "w2 = (if foul \<or> length (pocketedBalls (turnState w1)) = 0
                     then w1\<lparr>currentPlayerIndex :=
                              (currentPlayerIndex w1 + 1) mod length (players w1)\<rparr>
                     else w1)"
  define w3 where "w3 = w2\<lparr>stick := stick_show (stick w2) (position (heap w2 (cueBall w2)))\<rparr>"
  define w4 where "w4 = w3\<lparr>turnState := new_State\<lparr>ballInHand := foul\<rparr>\<rparr>"
  have run: "nextTurn ai env w = (if isAITurn env w4 then ai w4 else w4)"
    using assms(1)
    unfolding nextTurn_def w4_def w3_def w2_def w1_def foul_def Let_def by simp
  have w1: "players w1 = players w" "currentPlayerIndex w1 = currentPlayerIndex w"
    "turnState w1 = turnState w"
    by (simp_all add: w1_def)
  have "currentPlayerIndex w = 0 \<or> currentPlayerIndex w = 1"
    using assms(3) by auto
  then have other: "Suc (currentPlayerIndex w) mod length (players w) = Suc 0 - currentPlayerIndex w"
    using assms(2) by auto
  have idx: "currentPlayerIndex w4 =
               (if foul \<or> pocketedBalls (turnState w) = []
                then 1 - currentPlayerIndex w else currentPlayerIndex w)"
    by (simp add: w4_def w3_def w2_def w1 other)
  have st: "turnState w4 = new_State\<lparr>ballInHand := foul\<rparr>" and ps: "players w4 = players w"
    by (simp_all add: w4_def w3_def w2_def w1)
  from run idx st ps show ?thesis
    unfolding foul_def by blast
qed


theorem C6_hand_off_unless_game_over_witness:
  "\<not> isGameOver endgameWorld \<and> length (players endgameWorld) = 2 \<and>
   currentPlayerIndex endgameWorld < 2 \<and>
   currentPlayerIndex (nextTurn (\<lambda>w. w) (mouseAt zero False) endgameWorld) = 1 \<and>
   ballInHand (turnState (nextTurn (\<lambda>w. w) (mouseAt zero False) endgameWorld))"
proof -
  have h: "\<not> isGameOver endgameWorld" "length (players endgameWorld) = 2"
    "currentPlayerIndex endgameWorld < 2"
    by (simp_all add: endgameWorld_def isGameOver_def referee_isGameOver_def new_Ball_def)
  have e: "\<not> isValid (turnState endgameWorld)" "currentPlayerIndex endgameWorld = 0"
    "\<And>w. \<not> isAITurn (mouseAt zero False) w"
    by (simp_all add: endgameWorld_def new_State_def isAITurn_def mouseAt_def)
  from C6_hand_off_unless_game_over [OF h, of "\<lambda>w. w" "mouseAt zero False"] h e show ?thesis
    by (auto simp: new_State_def)
qed


text \<open>
  C6 (as stated) fails when the concluded turn ends the game: with the black ball pocketed
  in an invalid turn of player 0, \<open>nextTurn\<close> starts a new match; player 0 is to play and the
  fresh turn state has \<open>ballInHand = false\<close>.
\<close>

theorem C6_game_over_counterexample:
  "\<not> isValid (turnState blackPottedWorld) \<and> currentPlayerIndex blackPottedWorld = 0 \<and>
   currentPlayerIndex (nextTurn (\<lambda>w. w) (mouseAt zero False) blackPottedWorld) = 0 \<and>
   \<not> ballInHand (turnState (nextTurn (\<lambda>w. w) (mouseAt zero False) blackPottedWorld))"
  by (simp add: blackPottedWorld_def endgameWorld_def new_State_def nextTurn_def isGameOver_def
      referee_isGameOver_def hide_def handleGameOver_def initMatch_def isAITurn_def mouseAt_def
      Let_def)


section \<open>Ball in hand\<close>

text \<open>
  C7 (amended): with the ball in hand and every non-white ball of the world visible, a click
  places the cue ball (clears \<open>ballInHand\<close>) exactly when the position is inside the four
  cushion lines, outside every pocket and more than one diameter away from every other
  visible ball; the cue ball is then at the position. Otherwise the click is rejected:
  \<open>ballInHand\<close> stays true, the cue ball is moved to the position all the same, the stick
  is hidden and made immovable, and nothing else changes.
\<close>

theorem C7_placement_accepted_iff_legal:
  assumes inHand: "ballInHand (turnState w)"
      and pressed: "mouse_pressed env"
      and vis: "list_all (\<lambda>r. color (heap w r) = white \<or> visible (heap w r)) (balls w)"
  shows "let pos = mouse_position env; w' = handleBallInHand env w in
           (\<not> ballInHand (turnState w')) =
             (insideBorders pos \<and> \<not> isInsidePocket pos \<and>
              list_all (\<lambda>r. color (heap w r) \<noteq> white \<and> visible (heap w r) \<longrightarrow>
                             distFrom (position (heap w r)) pos > diameter) (balls w)) \<and>
           (\<not> ballInHand (turnState w') \<longrightarrow> position (heap w' (cueBall w')) = pos) \<and>
           (ballInHand (turnState w') \<longrightarrow>
              w' = w\<lparr>stick := (stick w)\<lparr>movable := False, stick_visible := False\<rparr>,
                     heap := (heap w)(cueBall w := (heap w (cueBall w))\<lparr>position := pos\<rparr>)\<rparr>)"
proof -
  have eq: "list_all (\<lambda>r. color (heap w r) = white \<or> distFrom (position (heap w r)) p > diameter) (balls w)
      = list_all (\<lambda>r. color (heap w r) \<noteq> white \<and> visible (heap w r) \<longrightarrow>
                             distFrom (position (heap w r)) p > diameter) (balls w)" for p
    using vis by (induction "balls w") (auto simp: list_all_iff)
  show ?thesis
    using inHand pressed
    by (auto simp: handleBallInHand_def placeBallInHand_def Let_def isValidPosToPlaceCueBall_def
        isInsideTableBoundaries_def insideBorders_def eq)
qed


theorem C7_placement_accepted_iff_legal_witness:
  "ballInHand (turnState inHandWorld) \<and> mouse_pressed (mouseAt (vec 600 400) True) \<and>
   list_all (\<lambda>r. color (heap inHandWorld r) = white \<or> visible (heap inHandWorld r))
     (balls inHandWorld) \<and>
   \<not> ballInHand (turnState (handleBallInHand (mouseAt (vec 600 400) True) inHandWorld)) \<and>
   position (heap (handleBallInHand (mouseAt (vec 600 400) True) inHandWorld)
               (cueBall (handleBallInHand (mouseAt (vec 600 400) True) inHandWorld)))
     = vec 600 400"
proof -
  have h: "ballInHand (turnState inHandWorld)" "mouse_pressed (mouseAt (vec 600 400) True)"
    "list_all (\<lambda>r. color (heap inHandWorld r) = white \<or> visible (heap inHandWorld r))
       (balls inHandWorld)"
    by (simp_all add: inHandWorld_def endgameWorld_def new_State_def mouseAt_def new_Ball_def)
  have ok: "insideBorders (vec 600 400)" "\<not> isInsidePocket (vec 600 400)"
    "list_all (\<lambda>r. color (heap inHandWorld r) \<noteq> white \<and> visible (heap inHandWorld r) \<longrightarrow>
                 distFrom (position (heap inHandWorld r)) (vec 600 400) > diameter)
       (balls inHandWorld)"
    by (simp_all add: insideBorders_def border_defs isInsidePocket_vec inHandWorld_def
        endgameWorld_def new_Ball_def eightBallPosition_def distFrom_vec_gt)
  have m: "mouse_position (mouseAt (vec 600 400) True) = vec 600 400"
    by (simp add: mouseAt_def)
  from C7_placement_accepted_iff_legal [OF h] ok h show ?thesis
    unfolding Let_def m by blast
qed


text \<open>
  C7 (as stated) fails: a click at \<open>(0, 0)\<close>, outside the table, is rejected, and the world
  is not left unchanged (the cue ball is at \<open>(0, 0)\<close> afterwards).
\<close>

theorem C7_rejected_moves_cue_ball_counterexample:
  "ballInHand (turnState inHandWorld) \<and> mouse_pressed (mouseAt (vec 0 0) True) \<and>
   \<not> isValidPosToPlaceCueBall inHandWorld (mouse_position (mouseAt (vec 0 0) True)) \<and>
   handleBallInHand (mouseAt (vec 0 0) True) inHandWorld \<noteq> inHandWorld"
proof -
  have "position (heap (handleBallInHand (mouseAt (vec 0 0) True) inHandWorld) 0) = vec 0 0"
    by (simp add: handleBallInHand_def placeBallInHand_def Let_def inHandWorld_def
        endgameWorld_def mouseAt_def)
  moreover have "position (heap inHandWorld 0) = vec 413 413"
    by (simp add: inHandWorld_def endgameWorld_def new_Ball_def cueBallPosition_def)
  ultimately have "handleBallInHand (mouseAt (vec 0 0) True) inHandWorld \<noteq> inHandWorld"
    by (auto simp: vec_eq_iff)
  moreover have "\<not> isValidPosToPlaceCueBall inHandWorld (mouse_position (mouseAt (vec 0 0) True))"
    by (simp add: isValidPosToPlaceCueBall_def isInsideTableBoundaries_def mouseAt_def
        isBallPosOutsideTopBorder_def v2y_vec diameter_def cushionWidth_def)
  ultimately show ?thesis
    by (simp add: inHandWorld_def new_State_def mouseAt_def)
qed


text \<open>
  C10 (amended): with \<open>ballInHand\<close> set, a tick of \<open>update\<close> returns a world that differs
  from the old one in nothing but the position of the cue ball, the stick and the
  \<open>ballInHand\<close> flag, and the stick keeps its rotation and power. So every ball other than
  the cue ball is unchanged, the cue ball keeps its velocity, visibility, moving flag and
  colour, and the list of balls, the players, the current player, the first-collision colour,
  the pocketed balls and the validity of the turn are unchanged: no friction step, no
  collision, no pocketing and no turn conclusion took place.
\<close>

theorem C10_ball_in_hand_no_physics:
  assumes "ballInHand (turnState w)"
  shows "\<exists>w'. update ai env w = Some w' \<and>
           w' = w\<lparr>stick := stick w',
                  heap := (heap w)(cueBall w :=
                            (heap w (cueBall w))\<lparr>position := position (heap w' (cueBall w))\<rparr>),
                  turnState := (turnState w)\<lparr>ballInHand := ballInHand (turnState w')\<rparr>\<rparr> \<and>
           rotation (stick w') = rotation (stick w) \<and>
           stick_power (stick w') = stick_power (stick w) \<and>
           (\<forall>r. r \<noteq> cueBall w \<longrightarrow> heap w' r = heap w r) \<and>
           velocity (heap w' (cueBall w)) = velocity (heap w (cueBall w)) \<and>
           visible (heap w' (cueBall w)) = visible (heap w (cueBall w)) \<and>
           moving (heap w' (cueBall w)) = moving (heap w (cueBall w)) \<and>
           color (heap w' (cueBall w)) = color (heap w (cueBall w)) \<and>
           balls w' = balls w \<and> cueBall w' = cueBall w \<and> eightBall w' = eightBall w \<and>
           players w' = players w \<and> currentPlayerIndex w' = currentPlayerIndex w \<and>
           firstCollidedBallColor (turnState w') = firstCollidedBallColor (turnState w) \<and>
           pocketedBalls (turnState w') = pocketedBalls (turnState w) \<and>
           isValid (turnState w') = isValid (turnState w)"
  using assms
  by (simp add: update_def isBallInHand_def handleBallInHand_def placeBallInHand_def Let_def
      stick_show_def)


theorem C10_ball_in_hand_no_physics_witness:
  "ballInHand (turnState inHandWorld) \<and>
   (\<exists>w'. update (\<lambda>w. w) (mouseAt (vec 600 400) False) inHandWorld = Some w' \<and>
          heap w' 1 = heap inHandWorld 1 \<and>
          position (heap w' 0) = vec 600 400 \<and>
          velocity (heap w' 0) = velocity (heap inHandWorld 0))"
proof -
  have h: "ballInHand (turnState inHandWorld)"
    by (simp add: inHandWorld_def)
  have c: "cueBall inHandWorld = 0"
    by (simp add: inHandWorld_def endgameWorld_def)
  have p: "\<And>w'. update (\<lambda>w. w) (mouseAt (vec 600 400) False) inHandWorld = Some w' \<Longrightarrow>
            position (heap w' 0) = vec 600 400"
    using h by (auto simp: update_def isBallInHand_def handleBallInHand_def Let_def mouseAt_def c)
  from C10_ball_in_hand_no_physics [OF h, of "\<lambda>w. w" "mouseAt (vec 600 400) False"] obtain w'
    where "update (\<lambda>w. w) (mouseAt (vec 600 400) False) inHandWorld = Some w'"
      "\<forall>r. r \<noteq> cueBall inHandWorld \<longrightarrow> heap w' r = heap inHandWorld r"
      "velocity (heap w' (cueBall inHandWorld)) = velocity (heap inHandWorld (cueBall inHandWorld))"
    by blast
  then show ?thesis using h p by (auto simp: c)
qed


text \<open>
  C10 (as stated) fails: on a click at a legal position the tick also clears \<open>ballInHand\<close>.
\<close>

theorem C10_placement_clears_flag_counterexample:
  "ballInHand (turnState inHandWorld) \<and>
   map_option (\<lambda>w'. ballInHand (turnState w'))
     (update (\<lambda>w. w) (mouseAt (vec 600 400) True) inHandWorld) = Some False"
proof -
  have "isValidPosToPlaceCueBall inHandWorld (vec 600 400)"
    by (simp add: isValidPosToPlaceCueBall_def isInsideTableBoundaries_def border_defs
        isInsidePocket_vec inHandWorld_def endgameWorld_def new_Ball_def eightBallPosition_def
        distFrom_vec_gt)
  then show ?thesis
    by (simp add: update_def isBallInHand_def handleBallInHand_def placeBallInHand_def Let_def
        mouseAt_def) (simp add: inHandWorld_def)
qed


section \<open>Pocketing and colours\<close>

lemma visible_resolveBallInPocket:
  "visible (resolveBallInPocket b) = (visible b \<and> \<not> isInsidePocket (position b))"
  "color (resolveBallInPocket b) = color b"
  by (simp_all add: resolveBallInPocket_def hide_def)

lemma pocketStep_index: "currentPlayerIndex (pocketStep w r) = currentPlayerIndex w"
  by (simp add: pocketStep_def Let_def)

lemma pocketStep_coloured:
  "player_color (currentPlayer w) \<noteq> None \<Longrightarrow> players (pocketStep w r) = players w"
  by (auto simp: pocketStep_def Let_def currentPlayer_def)

lemma pocketStep_not_assigning:
  "\<not> assigns w r \<Longrightarrow> players (pocketStep w r) = players w"
  by (auto simp: pocketStep_def Let_def assigns_def newlyPocketed_def
      visible_resolveBallInPocket currentPlayer_def)

lemma pocketStep_assigning:
  assumes "assigns w r" "player_color (currentPlayer w) = None"
    "length (players w) = 2" "currentPlayerIndex w < 2"
  shows "player_color (currentPlayer (pocketStep w r)) = Some (color (heap w r))"
    and "player_color (nextPlayer (pocketStep w r)) =
           Some (if color (heap w r) = yellow then red else yellow)"
proof -
  have "currentPlayerIndex w = 0 \<or> currentPlayerIndex w = 1"
    using assms(4) by auto
  then have ne: "nextPlayerIndex w \<noteq> currentPlayerIndex w" "nextPlayerIndex w < 2"
    using assms(3) by (auto simp: nextPlayerIndex_def)
  show "player_color (currentPlayer (pocketStep w r)) = Some (color (heap w r))"
    "player_color (nextPlayer (pocketStep w r)) =
           Some (if color (heap w r) = yellow then red else yellow)"
    using assms ne
    by (auto simp: pocketStep_def Let_def assigns_def newlyPocketed_def
      visible_resolveBallInPocket currentPlayer_def nextPlayer_def nextPlayerIndex_def)
qed

lemma foldl_pocketStep_index:
  "currentPlayerIndex (foldl pocketStep w rs) = currentPlayerIndex w"
  by (induction rs arbitrary: w) (simp_all add: pocketStep_index)

lemma foldl_pocketStep_coloured:
  "player_color (currentPlayer w) \<noteq> None \<Longrightarrow> players (foldl pocketStep w rs) = players w"
proof (induction rs arbitrary: w)
  case Nil
  then show ?case by simp
next
  case (Cons r rs)
  have "players (pocketStep w r) = players w"
    using Cons.prems by (rule pocketStep_coloured)
  moreover from this have "player_color (currentPlayer (pocketStep w r)) \<noteq> None"
    using Cons.prems by (simp add: currentPlayer_def pocketStep_index)
  ultimately show ?case using Cons.IH [of "pocketStep w r"] by simp
qed

text \<open>A step that assigns no colour leaves the balls that assign one as they were.\<close>

lemma assigns_pocketStep:
  "\<not> assigns w r \<Longrightarrow> assigns (pocketStep w r) r' = assigns w r'"
  by (auto simp: pocketStep_def Let_def assigns_def newlyPocketed_def
      visible_resolveBallInPocket resolveBallInPocket_def hide_def)

lemma color_pocketStep: "color (heap (pocketStep w r) r') = color (heap w r')"
  by (simp add: pocketStep_def Let_def visible_resolveBallInPocket)

lemma foldl_pocketStep_colourless:
  assumes "player_color (currentPlayer w) = None" "length (players w) = 2"
    "currentPlayerIndex w < 2"
  shows "case find (assigns w) rs of
           None \<Rightarrow> players (foldl pocketStep w rs) = players w
         | Some r \<Rightarrow>
             player_color (currentPlayer (foldl pocketStep w rs)) = Some (color (heap w r)) \<and>
             player_color (nextPlayer (foldl pocketStep w rs)) =
               Some (if color (heap w r) = yellow then red else yellow)"
  using assms
proof (induction rs arbitrary: w)
  case Nil
  then show ?case by simp
next
  case (Cons r rs)
  show ?case
  proof (cases "assigns w r")
    case True
    note a = pocketStep_assigning [OF True Cons.prems]
    have "players (foldl pocketStep (pocketStep w r) rs) = players (pocketStep w r)"
      using a(1) by (intro foldl_pocketStep_coloured) simp
    then show ?thesis
      using True a
      by (simp add: currentPlayer_def nextPlayer_def nextPlayerIndex_def
          foldl_pocketStep_index)
  next
    case False
    have same: "players (pocketStep w r) = players w"
      using False by (rule pocketStep_not_assigning)
    have "assigns (pocketStep w r) = assigns w"
      using assigns_pocketStep [OF False] by (rule ext)
    moreover have "player_color (currentPlayer (pocketStep w r)) = None"
      "length (players (pocketStep w r)) = 2" "currentPlayerIndex (pocketStep w r) < 2"
      using Cons.prems by (simp_all add: same currentPlayer_def pocketStep_index)
    ultimately show ?thesis
      using False Cons.IH [of "pocketStep w r"]
      by (simp add: same color_pocketStep split: option.splits)
  qed
qed


text \<open>
  C8 (amended): \<open>handleBallsInPockets\<close> keeps the current player. If the current player has
  a colour, the players are unchanged. If not, the first ball of the list that is recorded as
  pocketed by the call and is red or yellow gives its colour to the current player and the
  other of the two colours to the opponent, whether or not the turn is legal; without such a
  ball the players are unchanged.
\<close>

theorem C8_colour_by_first_pocketed:
  assumes "length (players w) = 2" "currentPlayerIndex w < 2"
  shows "let w' = handleBallsInPockets w in
           currentPlayerIndex w' = currentPlayerIndex w \<and>
           (case player_color (currentPlayer w) of
              Some c \<Rightarrow> players w' = players w
            | None \<Rightarrow>
               (case find (assigns w) (balls w) of
                  None \<Rightarrow> players w' = players w
                | Some r \<Rightarrow>
                    player_color (currentPlayer w') = Some (color (heap w r)) \<and>
                    player_color (nextPlayer w') =
                      Some (if color (heap w r) = yellow then red else yellow)))"
proof (cases "player_color (currentPlayer w)")
  case None
  from foldl_pocketStep_colourless [OF None assms, of "balls w"] show ?thesis
    by (simp add: handleBallsInPockets_def Let_def None foldl_pocketStep_index)
next
  case (Some c)
  then show ?thesis
    by (simp add: handleBallsInPockets_def Let_def foldl_pocketStep_index
        foldl_pocketStep_coloured)
qed


lemma find_assigns_resting:
  "find (assigns restingInPocketWorld) (balls restingInPocketWorld) = Some 7"
  "color (heap restingInPocketWorld 7) = red"
  by (simp_all add: restingInPocketWorld_def assigns_def newlyPocketed_def breakBalls_def
      redBallsPositions_def yellowBallsPositions_def new_Ball_def isInsidePocket_vec
      isValidPlayerColor_def new_State_def)

theorem C8_colour_by_first_pocketed_witness:
  "length (players restingInPocketWorld) = 2 \<and> currentPlayerIndex restingInPocketWorld < 2 \<and>
   player_color (currentPlayer (handleBallsInPockets restingInPocketWorld)) = Some red \<and>
   player_color (nextPlayer (handleBallsInPockets restingInPocketWorld)) = Some yellow"
proof -
  have h: "length (players restingInPocketWorld) = 2"
    "currentPlayerIndex restingInPocketWorld < 2"
    by (simp_all add: restingInPocketWorld_def)
  have n: "player_color (currentPlayer restingInPocketWorld) = None"
    by (simp add: restingInPocketWorld_def currentPlayer_def new_Player_def)
  from C8_colour_by_first_pocketed [OF h] h find_assigns_resting(2) show ?thesis
    unfolding Let_def n find_assigns_resting(1) by simp
qed

lemma pocketStep_first_touch:
  "firstCollidedBallColor (turnState (pocketStep w r)) = firstCollidedBallColor (turnState w)"
  by (simp add: pocketStep_def Let_def)

lemma handleBallsInPockets_first_touch:
  "firstCollidedBallColor (turnState (handleBallsInPockets w)) =
     firstCollidedBallColor (turnState w)"
proof -
  have "firstCollidedBallColor (turnState (foldl pocketStep w rs)) =
          firstCollidedBallColor (turnState w)" for rs
    by (induction rs arbitrary: w) (simp_all add: pocketStep_first_touch)
  then show ?thesis by (simp add: handleBallsInPockets_def)
qed

lemma removePocketed_turnState: "turnState (foldl removePocketed w rs) = turnState w"
  by (induction rs arbitrary: w) (simp_all add: removePocketed_def Let_def)

lemma concludeTurn_no_touch:
  "firstCollidedBallColor (turnState w) = None \<Longrightarrow> \<not> isValid (turnState (concludeTurn w))"
  by (simp add: concludeTurn_def Let_def isValidTurn_def isValidFirstTouch_def
      removePocketed_turnState split: option.splits)

text \<open>
  C8 (as stated) fails: a red ball at rest in a pocket is recorded at the first tick of the
  turn of a player without a colour, and the player is given red; the cue ball then touches
  no ball, and the referee rules the turn invalid.
\<close>

theorem C8_colour_on_foul_counterexample:
  "player_color (currentPlayer restingInPocketWorld) = None \<and>
   player_color (currentPlayer (handleBallsInPockets restingInPocketWorld)) = Some red \<and>
   \<not> isValid (turnState (concludeTurn (handleBallsInPockets restingInPocketWorld)))"
proof -
  have n: "player_color (currentPlayer restingInPocketWorld) = None"
    "length (players restingInPocketWorld) = 2" "currentPlayerIndex restingInPocketWorld < 2"
    by (simp_all add: restingInPocketWorld_def currentPlayer_def new_Player_def)
  have "player_color (currentPlayer (handleBallsInPockets restingInPocketWorld)) = Some red"
    using foldl_pocketStep_colourless [OF n, of "balls restingInPocketWorld"]
    by (simp add: find_assigns_resting handleBallsInPockets_def)
  moreover have "firstCollidedBallColor (turnState restingInPocketWorld) = None"
    by (simp add: restingInPocketWorld_def new_State_def)
  then have "\<not> isValid (turnState (concludeTurn (handleBallsInPockets restingInPocketWorld)))"
    by (intro concludeTurn_no_touch) (simp add: handleBallsInPockets_first_touch)
  ultimately show ?thesis using n(1) by simp
qed

section \<open>The optimizer\<close>

lemma init_inv: "trainer_inv (init t r1 r2)"
  by (simp add: trainer_inv_def init_def allocOpponent_def Let_def createRandomOpponent_def
      new_AIOpponent_def)

text \<open>What an evaluating call of \<open>train\<close> leaves in the fields of the candidates.\<close>

lemma train_evaluating:
  assumes c: "iteration t \<noteq> trainIterations t" "\<not> isBallsMoving (gameWorld t)"
  defines "e \<equiv> evaluate (concludeTurn (gameWorld t))"
  defines "h1 \<equiv> (opp_heap t)(currentOpponent t := (opp_heap t (currentOpponent t))\<lparr>evaluation := e\<rparr>)"
  defines "copy \<equiv> \<lparr>opp_power = opp_power (opp_heap t (currentOpponent t)),
                    opp_rotation = opp_rotation (opp_heap t (currentOpponent t)),
                    evaluation = e\<rparr>"
  defines "h2 \<equiv> h1(opp_next t := copy)"
  shows "bestOpponent (train t r1 r2) =
           (if e > evaluation (h2 (bestOpponent t)) then opp_next t else bestOpponent t)"
    and "currentOpponent (train t r1 r2) = opp_next t + 1"
    and "opp_next (train t r1 r2) = opp_next t + 2"
    and "iteration (train t r1 r2) = iteration t + 1"
    and "\<And>a. a \<noteq> opp_next t + 1 \<Longrightarrow> opp_heap (train t r1 r2) a = h2 a"
    and "trainIterations (train t r1 r2) = trainIterations t"
proof -
  define t1 where "t1 = t\<lparr>gameWorld := concludeTurn (gameWorld t)\<rparr>"
  define t2 where "t2 = t1\<lparr>opp_heap := (opp_heap t1)(currentOpponent t1 :=
                       (opp_heap t1 (currentOpponent t1))\<lparr>evaluation :=
                          evaluate (gameWorld t1)\<rparr>)\<rparr>"
  define p3 where "p3 = allocOpponent t2
                 \<lparr>opp_power = opp_power (opp_heap t2 (currentOpponent t2)),
                  opp_rotation = opp_rotation (opp_heap t2 (currentOpponent t2)),
                  evaluation = evaluation (opp_heap t2 (currentOpponent t2))\<rparr>"
  define t4 where "t4 = (fst p3)\<lparr>opponents := opponents (fst p3) @ [snd p3]\<rparr>"
  define t5 where "t5 = (if evaluation (opp_heap t4 (snd p3))
                       > evaluation (opp_heap t4 (bestOpponent t4))
                  then t4\<lparr>bestOpponent := snd p3\<rparr> else t4)"
  define t6 where "t6 = t5\<lparr>gameWorld := initialGameWorld t5\<rparr>"
  define p7 where "p7 = allocOpponent t6 (buildNewOpponent t6 r1 r2)"
  define t8 where "t8 = (fst p7)\<lparr>currentOpponent := snd p7\<rparr>"
  define t9 where "t9 = t8\<lparr>iteration := iteration t8 + 1\<rparr>"
  have run: "train t r1 r2 = simulate t9"
    unfolding train_def Let_def split_def t9_def t8_def p7_def t6_def t5_def t4_def p3_def
      t2_def t1_def
    using c by (simp only: if_False)
  have f2: "opp_heap t2 = h1" "opp_next t2 = opp_next t" "currentOpponent t2 = currentOpponent t"
    "bestOpponent t2 = bestOpponent t" "iteration t2 = iteration t"
    "trainIterations t2 = trainIterations t"
    by (simp_all add: t2_def t1_def h1_def e_def)
  have f3: "snd p3 = opp_next t" "opp_heap (fst p3) = h2" "opp_next (fst p3) = opp_next t + 1"
    "currentOpponent (fst p3) = currentOpponent t" "bestOpponent (fst p3) = bestOpponent t"
    "iteration (fst p3) = iteration t" "trainIterations (fst p3) = trainIterations t"
    by (simp_all add: p3_def allocOpponent_def f2 h2_def copy_def h1_def)
  have f4: "opp_heap t4 = h2" "opp_next t4 = opp_next t + 1"
    "bestOpponent t4 = bestOpponent t" "iteration t4 = iteration t"
    "trainIterations t4 = trainIterations t"
    by (simp_all add: t4_def f3)
  have e: "evaluation (h2 (opp_next t)) = e"
    by (simp add: h2_def copy_def)
  have f5: "opp_heap t5 = h2" "opp_next t5 = opp_next t + 1" "iteration t5 = iteration t"
    "trainIterations t5 = trainIterations t"
    "bestOpponent t5 = (if e > evaluation (h2 (bestOpponent t)) then opp_next t else bestOpponent t)"
    by (simp_all add: t5_def f4 f3 e)
  have f6: "opp_heap t6 = h2" "opp_next t6 = opp_next t + 1" "iteration t6 = iteration t"
    "bestOpponent t6 = bestOpponent t5" "trainIterations t6 = trainIterations t"
    by (simp_all add: t6_def f5)
  have f7: "snd p7 = opp_next t + 1" "opp_next (fst p7) = opp_next t + 2"
    "iteration (fst p7) = iteration t" "bestOpponent (fst p7) = bestOpponent t5"
    "\<And>a. a \<noteq> opp_next t + 1 \<Longrightarrow> opp_heap (fst p7) a = h2 a"
    "trainIterations (fst p7) = trainIterations t"
    by (simp_all add: p7_def allocOpponent_def f6)
  show "bestOpponent (train t r1 r2) =
           (if e > evaluation (h2 (bestOpponent t)) then opp_next t else bestOpponent t)"
    by (simp add: run simulate_def t9_def t8_def f7 f5)
  show "currentOpponent (train t r1 r2) = opp_next t + 1"
    by (simp add: run simulate_def t9_def t8_def f7)
  show "opp_next (train t r1 r2) = opp_next t + 2"
    by (simp add: run simulate_def t9_def t8_def f7)
  show "iteration (train t r1 r2) = iteration t + 1"
    by (simp add: run simulate_def t9_def t8_def f7)
  show "\<And>a. a \<noteq> opp_next t + 1 \<Longrightarrow> opp_heap (train t r1 r2) a = h2 a"
    by (simp add: run simulate_def t9_def t8_def f7)
  show "trainIterations (train t r1 r2) = trainIterations t"
    by (simp add: run simulate_def t9_def t8_def f7)
qed

lemma train_idle:
  assumes "iteration t = trainIterations t \<or> isBallsMoving (gameWorld t)"
  shows "bestOpponent (train t r1 r2) = bestOpponent t"
    and "currentOpponent (train t r1 r2) = currentOpponent t"
    and "opp_next (train t r1 r2) = opp_next t"
    and "iteration (train t r1 r2) = iteration t"
    and "opp_heap (train t r1 r2) = opp_heap t"
  using assms by (auto simp: train_def playTurn_def)

lemma train_inv: "trainer_inv t \<Longrightarrow> trainer_inv (train t r1 r2)"
proof (cases "iteration t = trainIterations t \<or> isBallsMoving (gameWorld t)")
  case True
  assume "trainer_inv t"
  then show ?thesis
    by (simp add: trainer_inv_def train_idle [OF True])
next
  case False
  then have c: "iteration t \<noteq> trainIterations t" "\<not> isBallsMoving (gameWorld t)"
    by simp_all
  assume "trainer_inv t"
  then show ?thesis
    by (simp add: trainer_inv_def train_evaluating(1-4) [OF c])
qed

lemma train_best_monotone:
  assumes "trainer_inv t" "0 < iteration t"
  shows "bestEvaluation t \<le> bestEvaluation (train t r1 r2)"
proof (cases "iteration t = trainIterations t \<or> isBallsMoving (gameWorld t)")
  case True
  then show ?thesis
    by (simp add: bestEvaluation_def train_idle [OF True])
next
  case False
  then have c: "iteration t \<noteq> trainIterations t" "\<not> isBallsMoving (gameWorld t)"
    by simp_all
  have ne: "currentOpponent t \<noteq> bestOpponent t" "bestOpponent t < opp_next t"
    using assms by (simp_all add: trainer_inv_def)
  show ?thesis
    using ne
    by (simp add: bestEvaluation_def train_evaluating(1) [OF c] train_evaluating(5) [OF c])
qed

lemma train_replaces:
  assumes "trainer_inv t" "bestOpponent (train t r1 r2) \<noteq> bestOpponent t"
  shows "bestEvaluation t < bestEvaluation (train t r1 r2)"
    and "opp_heap (train t r1 r2) (bestOpponent (train t r1 r2)) =
           \<lparr>opp_power = opp_power (opp_heap t (currentOpponent t)),
            opp_rotation = opp_rotation (opp_heap t (currentOpponent t)),
            evaluation = evaluate (concludeTurn (gameWorld t))\<rparr>"
proof -
  have c: "iteration t \<noteq> trainIterations t" "\<not> isBallsMoving (gameWorld t)"
    using assms(2) train_idle(1) [of t r1 r2] by auto
  have lt: "bestOpponent t < opp_next t"
    using assms(1) by (simp add: trainer_inv_def)
  from assms(2) have new: "bestOpponent (train t r1 r2) = opp_next t"
    and gt: "evaluate (concludeTurn (gameWorld t)) >
             evaluation (((opp_heap t)(currentOpponent t :=
                (opp_heap t (currentOpponent t))\<lparr>evaluation := evaluate (concludeTurn (gameWorld t))\<rparr>))
                 (bestOpponent t))"
    using lt by (auto simp: train_evaluating(1) [OF c] split: if_splits)
  from gt have ne: "currentOpponent t \<noteq> bestOpponent t"
    by auto
  show "opp_heap (train t r1 r2) (bestOpponent (train t r1 r2)) =
           \<lparr>opp_power = opp_power (opp_heap t (currentOpponent t)),
            opp_rotation = opp_rotation (opp_heap t (currentOpponent t)),
            evaluation = evaluate (concludeTurn (gameWorld t))\<rparr>"
    by (simp add: new train_evaluating(5) [OF c])
  then show "bestEvaluation t < bestEvaluation (train t r1 r2)"
    using gt ne by (simp add: bestEvaluation_def)
qed

lemma trainRun_inv: "trainer_inv t \<Longrightarrow> trainer_inv (trainRun xs t)"
proof (induction xs arbitrary: t)
  case Nil
  then show ?case by simp
next
  case (Cons x xs)
  obtain w r1 r2 where x: "x = (w, r1, r2)" by (cases x)
  have "trainer_inv (t\<lparr>gameWorld := w\<rparr>)"
    using Cons.prems by (simp add: trainer_inv_def)
  then show ?case
    unfolding x by (simp add: Cons.IH train_inv)
qed

lemma iteration_train: "iteration t \<le> iteration (train t r1 r2)"
  by (cases "iteration t = trainIterations t \<or> isBallsMoving (gameWorld t)")
     (simp_all add: train_idle(4) train_evaluating(4))

lemma trainRun_best_monotone:
  "trainer_inv t \<Longrightarrow> 0 < iteration t \<Longrightarrow> bestEvaluation t \<le> bestEvaluation (trainRun xs t)"
proof (induction xs arbitrary: t)
  case Nil
  then show ?case by simp
next
  case (Cons x xs)
  obtain w r1 r2 where x: "x = (w, r1, r2)" by (cases x)
  let ?t = "t\<lparr>gameWorld := w\<rparr>"
  have i: "trainer_inv ?t" "0 < iteration ?t"
    using Cons.prems by (simp_all add: trainer_inv_def)
  have "bestEvaluation t = bestEvaluation ?t"
    by (simp add: bestEvaluation_def)
  also have "\<dots> \<le> bestEvaluation (train ?t r1 r2)"
    using i by (rule train_best_monotone)
  also have "\<dots> \<le> bestEvaluation (trainRun xs (train ?t r1 r2))"
    using train_inv [OF i(1)] i(2) iteration_train [of ?t r1 r2]
    by (intro Cons.IH) simp_all
  finally show ?case unfolding x by simp
qed

text \<open>The first evaluating call: current and best candidate are one object.\<close>

lemma train_first_iteration:
  fixes r1 r2 :: real
  assumes "0 \<noteq> trainIterations t" "\<not> isBallsMoving w"
  defines "s \<equiv> (init t r1 r2)\<lparr>gameWorld := w\<rparr>"
  shows "bestOpponent (train s q1 q2) = bestOpponent s"
    and "bestEvaluation s = 0"
    and "bestEvaluation (train s q1 q2) = evaluate (concludeTurn w)"
proof -
  have c: "iteration s \<noteq> trainIterations s" "\<not> isBallsMoving (gameWorld s)"
    using assms(1,2) by (simp_all add: s_def init_def allocOpponent_def Let_def)
  have a: "bestOpponent s = currentOpponent s" "bestOpponent s < opp_next s"
    by (simp_all add: s_def init_def allocOpponent_def Let_def)
  show b: "bestOpponent (train s q1 q2) = bestOpponent s"
    using a by (simp add: train_evaluating(1) [OF c])
  show "bestEvaluation s = 0"
    by (simp add: bestEvaluation_def s_def init_def allocOpponent_def Let_def
        createRandomOpponent_def new_AIOpponent_def)
  show "bestEvaluation (train s q1 q2) = evaluate (concludeTurn w)"
    using a
    by (simp add: bestEvaluation_def b train_evaluating(5) [OF c]) (simp add: s_def)
qed

text \<open>
  Any call of \<open>train\<close> before the first evaluation: the best candidate is not replaced, and
  if the call evaluates, the best candidate takes the evaluation just measured.
\<close>

lemma train_before_first_evaluation:
  assumes "trainer_inv t" "iteration t = 0"
  shows "bestOpponent (train t r1 r2) = bestOpponent t"
    and "iteration (train t r1 r2) \<noteq> 0 \<Longrightarrow>
           bestEvaluation (train t r1 r2) = evaluate (concludeTurn (gameWorld t))"
proof -
  have a: "currentOpponent t = bestOpponent t" "bestOpponent t < opp_next t"
    using assms by (simp_all add: trainer_inv_def)
  show b: "bestOpponent (train t r1 r2) = bestOpponent t"
  proof (cases "iteration t = trainIterations t \<or> isBallsMoving (gameWorld t)")
    case True
    then show ?thesis by (rule train_idle(1))
  next
    case False
    then have c: "iteration t \<noteq> trainIterations t" "\<not> isBallsMoving (gameWorld t)"
      by simp_all
    show ?thesis
      using a by (simp add: train_evaluating(1) [OF c])
  qed
  assume n: "iteration (train t r1 r2) \<noteq> 0"
  have "\<not> (iteration t = trainIterations t \<or> isBallsMoving (gameWorld t))"
  proof
    assume i: "iteration t = trainIterations t \<or> isBallsMoving (gameWorld t)"
    from train_idle(4) [OF i, of r1 r2] n assms(2) show False by simp
  qed
  then have c: "iteration t \<noteq> trainIterations t" "\<not> isBallsMoving (gameWorld t)"
    by simp_all
  show "bestEvaluation (train t r1 r2) = evaluate (concludeTurn (gameWorld t))"
    using a by (simp add: bestEvaluation_def b train_evaluating(5) [OF c])
qed

text \<open>
  C9 (amended): \<open>s\<close> is the trainer after any number of calls of \<open>train\<close> in a session
  started by \<open>init\<close>. Once one iteration has been evaluated, the evaluation of the best
  candidate never decreases over any further calls. At every call, a replacement of the best
  candidate puts in its place the copy of the current candidate with the evaluation just
  measured, which is strictly greater than the evaluation of the candidate replaced. Before
  the first evaluation the best candidate is the current candidate itself, with the
  constructor's evaluation 0; a call of \<open>train\<close> then never replaces it, and the first
  evaluating call overwrites its evaluation with the evaluation just measured.
\<close>

theorem C9_best_evaluation_monotone:
  "let s = trainRun xs (init t0 r1 r2); s' = train (s\<lparr>gameWorld := w\<rparr>) q1 q2 in
     (0 < iteration s \<longrightarrow> bestEvaluation s \<le> bestEvaluation (trainRun ys s)) \<and>
     (bestOpponent s' \<noteq> bestOpponent s \<longrightarrow>
        bestEvaluation s < bestEvaluation s' \<and>
        opp_heap s' (bestOpponent s') =
          \<lparr>opp_power = opp_power (opp_heap s (currentOpponent s)),
           opp_rotation = opp_rotation (opp_heap s (currentOpponent s)),
           evaluation = evaluate (concludeTurn w)\<rparr>) \<and>
     (iteration s = 0 \<longrightarrow>
        currentOpponent s = bestOpponent s \<and> bestEvaluation s = 0 \<and>
        bestOpponent s' = bestOpponent s \<and>
        (iteration s' \<noteq> 0 \<longrightarrow> bestEvaluation s' = evaluate (concludeTurn w)))"
proof -
  define s where "s = trainRun xs (init t0 r1 r2)"
  have inv: "trainer_inv s"
    unfolding s_def by (intro trainRun_inv init_inv)
  then have inv': "trainer_inv (s\<lparr>gameWorld := w\<rparr>)"
    by (simp add: trainer_inv_def)
  have mono: "bestEvaluation s \<le> bestEvaluation (trainRun ys s)" if "0 < iteration s"
    using inv that by (rule trainRun_best_monotone)
  have repl: "bestEvaluation s < bestEvaluation (train (s\<lparr>gameWorld := w\<rparr>) q1 q2) \<and>
        opp_heap (train (s\<lparr>gameWorld := w\<rparr>) q1 q2) (bestOpponent (train (s\<lparr>gameWorld := w\<rparr>) q1 q2)) =
          \<lparr>opp_power = opp_power (opp_heap s (currentOpponent s)),
           opp_rotation = opp_rotation (opp_heap s (currentOpponent s)),
           evaluation = evaluate (concludeTurn w)\<rparr>"
    if "bestOpponent (train (s\<lparr>gameWorld := w\<rparr>) q1 q2) \<noteq> bestOpponent s"
    using train_replaces [OF inv', of q1 q2] that by (simp add: bestEvaluation_def)
  have first: "currentOpponent s = bestOpponent s \<and> bestEvaluation s = 0 \<and>
        bestOpponent (train (s\<lparr>gameWorld := w\<rparr>) q1 q2) = bestOpponent s \<and>
        (iteration (train (s\<lparr>gameWorld := w\<rparr>) q1 q2) \<noteq> 0 \<longrightarrow>
           bestEvaluation (train (s\<lparr>gameWorld := w\<rparr>) q1 q2) = evaluate (concludeTurn w))"
    if "iteration s = 0"
    using train_before_first_evaluation [OF inv', of q1 q2] inv that
    by (simp add: trainer_inv_def bestEvaluation_def)
  from mono repl first show ?thesis
    unfolding Let_def s_def [symmetric] by blast
qed

lemma example_worlds_still: "\<not> isBallsMoving endgameWorld" "\<not> isBallsMoving legalShotWorld"
  by (simp_all add: isBallsMoving_def endgameWorld_def legalShotWorld_def new_Ball_def)

lemma evaluate_endgame:
  "evaluate (concludeTurn endgameWorld) = 1 + 677 / 5800 - 3000"
  "evaluate (concludeTurn legalShotWorld) = 1 + 677 / 5800 + 5000"
  by (simp_all add: evaluate_def concludeTurn_def endgameWorld_def legalShotWorld_def Let_def
      new_State_def currentPlayer_def nextPlayer_def nextPlayerIndex_def new_Player_def
      isTurnValid_def isValidTurn_def isValidFirstTouch_def isValidPocketedBalls_def
      numOfPocketedBallsOnTurn_def isGameOver_def referee_isGameOver_def new_Ball_def
      cueBallPosition_def eightBallPosition_def distFrom_def subtract_def v2x_vec v2y_vec
      length_v_axis_x ballDistanceBonus_def validTurnBonus_def invalidTurnPenalty_def
      pocketedBallBonus_def getBallsByColor_def)

theorem C9_best_evaluation_monotone_witness:
  "0 < iteration (trainRun [(endgameWorld, 0, 0)] (init idleTrainer 0 0)) \<and>
   bestEvaluation (trainRun [(endgameWorld, 0, 0)] (init idleTrainer 0 0))
     \<le> bestEvaluation (trainRun [(legalShotWorld, 0, 0), (endgameWorld, 0, 0)]
                          (trainRun [(endgameWorld, 0, 0)] (init idleTrainer 0 0))) \<and>
   bestOpponent (train ((trainRun [(endgameWorld, 0, 0)] (init idleTrainer 0 0))
                          \<lparr>gameWorld := legalShotWorld\<rparr>) 0 0)
     \<noteq> bestOpponent (trainRun [(endgameWorld, 0, 0)] (init idleTrainer 0 0)) \<and>
   bestEvaluation (trainRun [(endgameWorld, 0, 0)] (init idleTrainer 0 0))
     < bestEvaluation (train ((trainRun [(endgameWorld, 0, 0)] (init idleTrainer 0 0))
                                \<lparr>gameWorld := legalShotWorld\<rparr>) 0 0) \<and>
   iteration (trainRun [] (init idleTrainer 0 0)) = 0 \<and>
   iteration (train ((trainRun [] (init idleTrainer 0 0))\<lparr>gameWorld := endgameWorld\<rparr>) 0 0) \<noteq> 0 \<and>
   bestOpponent (train ((trainRun [] (init idleTrainer 0 0))\<lparr>gameWorld := endgameWorld\<rparr>) 0 0)
     = bestOpponent (trainRun [] (init idleTrainer 0 0)) \<and>
   bestEvaluation (train ((trainRun [] (init idleTrainer 0 0))\<lparr>gameWorld := endgameWorld\<rparr>) 0 0)
     = evaluate (concludeTurn endgameWorld)"
proof -
  define s0 where "s0 = (init idleTrainer 0 0)\<lparr>gameWorld := endgameWorld\<rparr>"
  define s where "s = train s0 0 0"
  define t where "t = s\<lparr>gameWorld := legalShotWorld\<rparr>"
  have s_run: "trainRun [(endgameWorld, 0, 0)] (init idleTrainer 0 0) = s"
    by (simp add: s_def s0_def)
  have c0: "iteration s0 \<noteq> trainIterations s0" "\<not> isBallsMoving (gameWorld s0)"
    by (simp_all add: s0_def init_def allocOpponent_def Let_def idleTrainer_def example_worlds_still)
  have s0: "opp_next s0 = 1" "bestOpponent s0 = 0" "currentOpponent s0 = 0" "iteration s0 = 0"
    "trainIterations s0 = 30"
    by (simp_all add: s0_def init_def allocOpponent_def Let_def idleTrainer_def)
  have s: "iteration s = 1" "opp_next s = 3" "currentOpponent s = 2" "bestOpponent s = 0"
    "trainIterations s = 30"
    using train_evaluating(1-4,6) [OF c0, of 0 0]
    by (simp_all add: s_def s0)
  have first: "bestEvaluation s = evaluate (concludeTurn endgameWorld)"
    unfolding s_def s0_def
    by (rule train_first_iteration(3)) (simp_all add: idleTrainer_def example_worlds_still)
  have c1: "iteration t \<noteq> trainIterations t" "\<not> isBallsMoving (gameWorld t)"
    by (simp_all add: t_def s example_worlds_still)
  have tf: "opp_next t = 3" "bestOpponent t = 0" "currentOpponent t = 2"
    "opp_heap t = opp_heap s" "gameWorld t = legalShotWorld"
    by (simp_all add: t_def s)
  have "bestOpponent (train t 0 0) = 3"
    using first
    by (simp add: train_evaluating(1) [OF c1] tf s evaluate_endgame bestEvaluation_def)
  then have changed: "bestOpponent (train t 0 0) \<noteq> bestOpponent s"
    by (simp add: s)
  have it: "0 < iteration s"
    by (simp add: s)
  have i0: "iteration (init idleTrainer 0 0) = 0"
    by (simp add: init_def allocOpponent_def Let_def)
  have i1: "iteration (train s0 0 0) \<noteq> 0"
    using s(1) by (simp add: s_def)
  from C9_best_evaluation_monotone
         [where xs = "[(endgameWorld, 0, 0)]" and ?t0.0 = idleTrainer and ?r1.0 = 0 and ?r2.0 = 0
            and ys = "[(legalShotWorld, 0, 0), (endgameWorld, 0, 0)]" and w = legalShotWorld
            and ?q1.0 = 0 and ?q2.0 = 0]
    it changed
  have later: "0 < iteration s \<and>
      bestEvaluation s \<le> bestEvaluation (trainRun [(legalShotWorld, 0, 0), (endgameWorld, 0, 0)] s) \<and>
      bestOpponent (train t 0 0) \<noteq> bestOpponent s \<and>
      bestEvaluation s < bestEvaluation (train t 0 0)"
    unfolding Let_def s_run t_def [symmetric] by blast
  from C9_best_evaluation_monotone
         [where xs = "[]" and ?t0.0 = idleTrainer and ?r1.0 = 0 and ?r2.0 = 0
            and ys = "[]" and w = endgameWorld and ?q1.0 = 0 and ?q2.0 = 0]
    i0 i1
  have early: "iteration (init idleTrainer 0 0) = 0 \<and> iteration (train s0 0 0) \<noteq> 0 \<and>
      bestOpponent (train s0 0 0) = bestOpponent (init idleTrainer 0 0) \<and>
      bestEvaluation (train s0 0 0) = evaluate (concludeTurn endgameWorld)"
    unfolding Let_def trainRun.simps s0_def [symmetric] by blast
  show ?thesis
    unfolding s_run using later early by (simp add: t_def s0_def)
qed

text \<open>
  C9 (as stated) fails in the first iteration. \<open>init\<close> stores one candidate as the current
  and as the best candidate, with evaluation 0. The first evaluating call of \<open>train\<close> finds
  the simulated shot a foul (no ball touched) and writes its evaluation, about -2998.88, into
  the current candidate, which is the best candidate: the best candidate's evaluation drops
  from 0 although the best candidate has not been replaced.
\<close>

theorem C9_first_evaluation_counterexample:
  "bestEvaluation (init idleTrainer 0 0) = 0 \<and>
   iteration (trainRun [(endgameWorld, 0, 0)] (init idleTrainer 0 0)) = 1 \<and>
   bestOpponent (trainRun [(endgameWorld, 0, 0)] (init idleTrainer 0 0))
     = bestOpponent (init idleTrainer 0 0) \<and>
   bestEvaluation (trainRun [(endgameWorld, 0, 0)] (init idleTrainer 0 0))
     = 1 + 677 / 5800 - 3000 \<and>
   bestEvaluation (trainRun [(endgameWorld, 0, 0)] (init idleTrainer 0 0))
     < bestEvaluation (init idleTrainer 0 0)"
proof -
  define s0 where "s0 = (init idleTrainer 0 0)\<lparr>gameWorld := endgameWorld\<rparr>"
  have run: "trainRun [(endgameWorld, 0, 0)] (init idleTrainer 0 0) = train s0 0 0"
    by (simp add: s0_def)
  have h: "0 \<noteq> trainIterations idleTrainer" "\<not> isBallsMoving endgameWorld"
    by (simp_all add: idleTrainer_def example_worlds_still)
  have c0: "iteration s0 \<noteq> trainIterations s0" "\<not> isBallsMoving (gameWorld s0)"
    by (simp_all add: s0_def init_def allocOpponent_def Let_def idleTrainer_def example_worlds_still)
  have zero: "bestEvaluation (init idleTrainer 0 0) = 0"
    using train_first_iteration(2) [OF h, of 0 0] by (simp add: bestEvaluation_def)
  have it: "iteration (train s0 0 0) = 1"
    using train_evaluating(4) [OF c0, of 0 0]
    by (simp add: s0_def init_def allocOpponent_def Let_def)
  have same: "bestOpponent (train s0 0 0) = bestOpponent (init idleTrainer 0 0)"
    using train_first_iteration(1) [OF h, of 0 0 0 0] by (simp add: s0_def)
  have val: "bestEvaluation (train s0 0 0) = 1 + 677 / 5800 - 3000"
    using train_first_iteration(3) [OF h, of 0 0 0 0] by (simp add: s0_def evaluate_endgame)
  from zero it same val show ?thesis
    unfolding run by simp
qed


end
